theory Spec2Isabelle
  imports Complex_Main "HOL-Library.Word"
begin

section \<open>Byte buffers and the genesis instruction payload\<close>

text \<open>
  A Node \<^verbatim>\<open>Buffer\<close> is a list of bytes. A decimal string produced by
  \<^verbatim>\<open>BigInt.prototype.toString()\<close> and read back by \<^verbatim>\<open>BigInt(s)\<close> is
  represented by the number it denotes.
\<close>

type_synonym bytes = "8 word list"

datatype error =
    RangeError
  | TypeError
  | ConfigError
  | RpcError
  | LayoutError
  | StorageError
  | TradeError
  | LpDataMissing

text \<open>Little-endian value of a byte list, least significant byte first.\<close>

fun le_nat :: "bytes \<Rightarrow> nat" where
  "le_nat [] = 0"
| "le_nat (b # bs) = unat b + 256 * le_nat bs"

text \<open>
  \<^verbatim>\<open>buf.readBigUInt64LE(offset)\<close>: Node throws a RangeError unless
  \<^verbatim>\<open>offset + 8 <= buf.length\<close>.
\<close>

definition readBigUInt64LE :: "bytes \<Rightarrow> nat \<Rightarrow> error + nat" where
  "readBigUInt64LE buf off =
     (if off + 8 \<le> length buf then Inr (le_nat (take 8 (drop off buf))) else Inl RangeError)"

record init2_params =
  initPcAmount :: nat
  initCoinAmount :: nat

text \<open>
  \<^verbatim>\<open>
  function parseInit2(buf) {
      return {
          initPcAmount: buf.readBigUInt64LE(10).toString(),
          initCoinAmount: buf.readBigUInt64LE(18).toString()
      };
  }
  \<close>
\<close>

definition parseInit2 :: "bytes \<Rightarrow> error + init2_params" where
  "parseInit2 buf =
     (case readBigUInt64LE buf 10 of
        Inl e \<Rightarrow> Inl e
      | Inr pc \<Rightarrow>
          (case readBigUInt64LE buf 18 of
             Inl e \<Rightarrow> Inl e
           | Inr coin \<Rightarrow> Inr \<lparr>initPcAmount = pc, initCoinAmount = coin\<rparr>))"

text \<open>
  The unsigned 64-bit little-endian integer held by the eight bytes of \<open>buf\<close> that start
  at offset \<open>a\<close>, written as the positional sum.
\<close>

definition u64_le_at :: "bytes \<Rightarrow> nat \<Rightarrow> nat" where
  "u64_le_at buf a = (\<Sum>i<8. unat (buf ! (a + i)) * 256 ^ i)"

text \<open>A payload whose bytes [10,18) encode 1 and whose bytes [18,26) encode 2.\<close>

definition payload_1_2 :: bytes where
  "payload_1_2 =
     [0, 0, 0, 0, 0, 0, 0, 0, 0, 0,
      1, 0, 0, 0, 0, 0, 0, 0,
      2, 0, 0, 0, 0, 0, 0, 0]"

section \<open>JavaScript values held by the pool record\<close>

type_synonym pubkey = string

text \<open>
  The values the decoder stores: \<open>JNum n\<close> is a Number holding the non-negative integer
  \<open>n\<close>, \<open>JNaN\<close> is NaN, \<open>JDec i\<close> is the decimal string of the integer \<open>i\<close> (what
  \<^verbatim>\<open>toString()\<close> of a BigInt, a BN or an integral Number gives), \<open>JStr s\<close> any other
  string.
\<close>

datatype jsval =
    JUndefined
  | JBool bool
  | JStr string
  | JNum nat
  | JNaN
  | JDec int

type_synonym td = "string \<rightharpoonup> jsval"

definition WSOL_MINT :: string where
  "WSOL_MINT = ''So11111111111111111111111111111111111111112''"

definition SYSVAR_CLOCK :: string where
  "SYSVAR_CLOCK = ''SysvarC1ock11111111111111111111111111111111''"

definition TOKEN_PROGRAM_ID :: pubkey where
  "TOKEN_PROGRAM_ID = ''TokenkegQfeZyiNwAJbNbGKPFXCWuBvf9Ss623VQ5DA''"

definition ASSOCIATED_TOKEN_PROGRAM_ID :: pubkey where
  "ASSOCIATED_TOKEN_PROGRAM_ID = ''ATokenGPvbdGVxr1b2hvZbsiqW5xWH25efTNsLJA8knL''"

text \<open>\<^verbatim>\<open>PublicKey.default.toString()\<close>: the all-zero key.\<close>

definition PublicKey_default :: pubkey where
  "PublicKey_default = ''11111111111111111111111111111111''"

subsection \<open>Numbers of the pool-state layout\<close>

text \<open>
  A numeric field of the decoded pool state is a BN (the layout's 64- and 128-bit
  fields) or a plain Number (its narrower fields, at most 32 bits wide).
\<close>

datatype layout_num = LBN nat | LNumber "32 word"

text \<open>Number of binary digits.\<close>

fun bitlen :: "nat \<Rightarrow> nat" where
  "bitlen n = (if n = 0 then 0 else Suc (bitlen (n div 2)))"

declare bitlen.simps [simp del]

text \<open>
  The double nearest to a natural number (ties to even), as \<^verbatim>\<open>Number(s)\<close> gives for a
  decimal string: exact below \<open>2 ^ 53\<close>, 53 significant bits above.
\<close>

definition double_of_nat :: "nat \<Rightarrow> nat" where
  "double_of_nat n =
     (if n < 2 ^ 53 then n
      else
        let e = bitlen n - 53;
            q = n div 2 ^ e;
            r = n mod 2 ^ e;
            h = 2 ^ (e - 1)
        in if h < r \<or> (r = h \<and> odd q) then (q + 1) * 2 ^ e else q * 2 ^ e)"

text \<open>
  \<^verbatim>\<open>Number(x)\<close> for a field \<open>x\<close> of the decoded pool state: NaN for
  \<^verbatim>\<open>undefined\<close>; a BN has no \<^verbatim>\<open>valueOf\<close> of its own, so it goes through its decimal
  string.
\<close>

fun Number_of :: "layout_num option \<Rightarrow> jsval" where
  "Number_of None = JNaN"
| "Number_of (Some (LBN n)) = JNum (double_of_nat n)"
| "Number_of (Some (LNumber w)) = JNum (unat w)"

text \<open>\<^verbatim>\<open>Number(x) || d\<close>: NaN and 0 are falsy.\<close>

fun or_default :: "jsval \<Rightarrow> nat \<Rightarrow> jsval" where
  "or_default (JNum n) d = (if n = 0 then JNum d else JNum n)"
| "or_default JNaN d = JNum d"
| "or_default v d = v"

text \<open>Truthiness of a layout field: an object (a BN) is truthy whatever it holds.\<close>

fun truthy :: "layout_num option \<Rightarrow> bool" where
  "truthy None = False"
| "truthy (Some (LBN n)) = True"
| "truthy (Some (LNumber w)) = (w \<noteq> 0)"

fun toString :: "layout_num \<Rightarrow> jsval" where
  "toString (LBN n) = JDec (int n)"
| "toString (LNumber w) = JDec (uint w)"

text \<open>\<^verbatim>\<open>x ? x.toString() : d\<close>\<close>

definition toString_or :: "layout_num option \<Rightarrow> jsval \<Rightarrow> jsval" where
  "toString_or x d = (case x of None \<Rightarrow> d | Some v \<Rightarrow> if truthy x then toString v else d)"

section \<open>The pool-genesis decoder\<close>

subsection \<open>External collaborators\<close>

text \<open>
  What \<^verbatim>\<open>liquidityStateV4Layout.decode\<close> returns, restricted to the fields the decoder
  reads; \<open>None\<close> is a field the schema does not give (\<^verbatim>\<open>undefined\<close>).
\<close>

record pool_state =
  withdrawQueue :: "pubkey option"
  lpVault :: "pubkey option"
  lpDecimals :: "layout_num option"
  nonce :: "layout_num option"
  poolOpenTime :: "layout_num option"
  openTime :: "layout_num option"
  swapFeeNumerator :: "layout_num option"
  swapFeeDenominator :: "layout_num option"
  ownerTradeFeeNumerator :: "layout_num option"
  ownerTradeFeeDenominator :: "layout_num option"
  ownerWithdrawFeeNumerator :: "layout_num option"
  ownerWithdrawFeeDenominator :: "layout_num option"
  status :: "layout_num option"
  state :: "layout_num option"
  resetFlag :: "layout_num option"
  minSize :: "layout_num option"
  volMaxCutRatio :: "layout_num option"
  pnlNumerator :: "layout_num option"
  pnlDenominator :: "layout_num option"
  depth :: "layout_num option"
  coinDeposited :: "layout_num option"
  pcDeposited :: "layout_num option"
  systemDecimalsValue :: "layout_num option"

text \<open>
  An instruction of the message: the index of its program, its account indexes
  (\<^verbatim>\<open>ix.accounts || ix.accountKeyIndexes\<close>) and its payload, the bytes
  \<^verbatim>\<open>Buffer.from(ix.data, 'base64')\<close> holds (a copy of the instruction's byte array).
\<close>

record compiled_instruction =
  programIdIndex :: nat
  accountKeyIndexes :: "nat list"
  data :: bytes

text \<open>
  The message of a fetched transaction: its account keys, printed
  (\<^verbatim>\<open>(msg.staticAccountKeys ?? msg.accountKeys).map(k => k.toString())\<close>), and its
  instructions (\<^verbatim>\<open>msg.compiledInstructions || msg.instructions\<close>).
\<close>

record message =
  accountKeys :: "pubkey list"
  compiledInstructions :: "compiled_instruction list"

text \<open>
  The environment of one call: the process environment, the ledger accessor
  \<^verbatim>\<open>conn\<close> (read as one snapshot), the layout decoder, the address derivation and
  base58 printing of the ledger library, the floating-point launch price, the clock and
  the record store. A call that can throw returns \<open>Inl\<close>; \<open>getAccountInfo\<close> gives the
  account's data, \<open>getTokenSupply\<close> the \<^verbatim>\<open>decimals\<close> of the reply, \<open>insertOne\<close> the
  inserted id.
\<close>

record env =
  USER_SOLANA_ADDRESS :: "string option"
  RAYDIUM_AMM :: pubkey
  validKey :: "string \<Rightarrow> bool"
  getTransaction :: "string \<Rightarrow> error + message option"
  getAccountInfo :: "pubkey \<Rightarrow> error + bytes option"
  getTokenSupply :: "pubkey \<Rightarrow> error + nat"
  layoutDecode :: "bytes \<Rightarrow> error + pool_state"
  findProgramAddressSync :: "pubkey list \<Rightarrow> pubkey \<Rightarrow> error + pubkey"
  base58 :: "bytes \<Rightarrow> pubkey"
  launchPrice :: "int \<Rightarrow> nat \<Rightarrow> int \<Rightarrow> nat \<Rightarrow> string"
  nowSeconds :: nat
  nowISO :: string
  insertOne :: "td \<Rightarrow> error + jsval"

definition bind_err :: "error + 'a \<Rightarrow> ('a \<Rightarrow> error + 'b) \<Rightarrow> error + 'b" where
  "bind_err m f = (case m of Inl e \<Rightarrow> Inl e | Inr x \<Rightarrow> f x)"

text \<open>
  \<^verbatim>\<open>new PublicKey(v)\<close> for a string or \<^verbatim>\<open>undefined\<close>: throws unless \<open>v\<close> is a
  well-formed printed key.
\<close>

definition new_PublicKey :: "env \<Rightarrow> jsval \<Rightarrow> error + pubkey" where
  "new_PublicKey env v =
     (case v of
        JStr s \<Rightarrow> if validKey env s then Inr s else Inl TypeError
      | _ \<Rightarrow> Inl TypeError)"

text \<open>\<^verbatim>\<open>new PublicKey(poolData.f).toString()\<close> for a key field of the pool state.\<close>

definition key_field :: "pubkey option \<Rightarrow> error + pubkey" where
  "key_field k = (case k of None \<Rightarrow> Inl TypeError | Some s \<Rightarrow> Inr s)"

text \<open>
  \<^verbatim>\<open>accounts[idx[k]]\<close>: an index outside either array reads \<^verbatim>\<open>undefined\<close>.
\<close>

definition account_at :: "pubkey list \<Rightarrow> nat list \<Rightarrow> nat \<Rightarrow> jsval" where
  "account_at accounts idx k =
     (if k < length idx then
        (if idx ! k < length accounts then JStr (accounts ! (idx ! k)) else JUndefined)
      else JUndefined)"

text \<open>Reading a property of the record: \<^verbatim>\<open>undefined\<close> when it is not there.\<close>

definition get_field :: "td \<Rightarrow> string \<Rightarrow> jsval" where
  "get_field t k = (case t k of None \<Rightarrow> JUndefined | Some v \<Rightarrow> v)"

subsection \<open>Account mapping and base/quote orientation\<close>

text \<open>
  \<^verbatim>\<open>
  const ammId = accounts[idx[4]];
  const lpMint = accounts[idx[7]];
  let authority = accounts[idx[5]];
  let openOrders = accounts[idx[6]];
  if (authority === 'SysvarC1ock11111111111111111111111111111111') {
      authority = accounts[idx[6]];
      openOrders = accounts[idx[7]];
  }
  \<close>
\<close>

record variant_accounts =
  ammId :: jsval
  lpMint :: jsval
  authority :: jsval
  openOrders :: jsval

definition map_accounts :: "pubkey list \<Rightarrow> nat list \<Rightarrow> variant_accounts" where
  "map_accounts accounts idx =
     (if account_at accounts idx 5 = JStr SYSVAR_CLOCK then
        \<lparr>ammId = account_at accounts idx 4, lpMint = account_at accounts idx 7,
         authority = account_at accounts idx 6, openOrders = account_at accounts idx 7\<rparr>
      else
        \<lparr>ammId = account_at accounts idx 4, lpMint = account_at accounts idx 7,
         authority = account_at accounts idx 5, openOrders = account_at accounts idx 6\<rparr>)"

text \<open>
  The pair fields, the local variables
  \<^verbatim>\<open>baseMint, quoteMint, baseVault, quoteVault, initBase, initQuote\<close>.
\<close>

record pair_fields =
  baseMint :: jsval
  quoteMint :: jsval
  baseVault :: jsval
  quoteVault :: jsval
  initBase :: int
  initQuote :: int

text \<open>
  \<^verbatim>\<open>
  let baseMint = accounts[idx[8]];
  let quoteMint = accounts[idx[9]];
  let baseVault = accounts[idx[10]];
  let quoteVault = accounts[idx[11]];
  let initBase = params.initCoinAmount;  // coin side
  let initQuote = params.initPcAmount;    // pc   side
  \<close>
\<close>

definition raw_pair :: "pubkey list \<Rightarrow> nat list \<Rightarrow> init2_params \<Rightarrow> pair_fields" where
  "raw_pair accounts idx params =
     \<lparr>baseMint = account_at accounts idx 8,
      quoteMint = account_at accounts idx 9,
      baseVault = account_at accounts idx 10,
      quoteVault = account_at accounts idx 11,
      initBase = int (initCoinAmount params),
      initQuote = int (initPcAmount params)\<rparr>"

text \<open>
  The three destructuring swaps
  \<^verbatim>\<open>[baseMint, quoteMint] = [quoteMint, baseMint]\<close>,
  \<^verbatim>\<open>[baseVault, quoteVault] = [quoteVault, baseVault]\<close>,
  \<^verbatim>\<open>[initBase, initQuote] = [initQuote, initBase]\<close>.
\<close>

definition swap_pair :: "pair_fields \<Rightarrow> pair_fields" where
  "swap_pair p =
     \<lparr>baseMint = quoteMint p, quoteMint = baseMint p,
      baseVault = quoteVault p, quoteVault = baseVault p,
      initBase = initQuote p, initQuote = initBase p\<rparr>"

text \<open>\<^verbatim>\<open>if (baseMint === WSOL_MINT) { ... }\<close>: flip if WSOL was coin side.\<close>

definition canonicalize :: "pair_fields \<Rightarrow> pair_fields" where
  "canonicalize p = (if baseMint p = JStr WSOL_MINT then swap_pair p else p)"

subsection \<open>The record under construction\<close>

text \<open>
  The body of \<^verbatim>\<open>processRaydiumLpTransaction\<close> for the matching instruction, block by
  block in the order of the source; each block below is headed by the source's own
  comment. A block returns \<open>Inl e\<close> where the source throws and \<open>Inr None\<close> where it
  executes \<^verbatim>\<open>return null\<close>.
\<close>

text \<open>\<^verbatim>\<open>const td = { programId: RAYDIUM_AMM.toString(), ammId, lpMint, ... }\<close>\<close>

definition td_base :: "env \<Rightarrow> pubkey list \<Rightarrow> nat list \<Rightarrow> variant_accounts \<Rightarrow> pair_fields \<Rightarrow> td" where
  "td_base env accounts idx va p =
     [''programId'' \<mapsto> JStr (RAYDIUM_AMM env),
      ''ammId'' \<mapsto> ammId va,
      ''lpMint'' \<mapsto> lpMint va,
      ''ammAuthority'' \<mapsto> authority va,
      ''ammOpenOrders'' \<mapsto> openOrders va,
      ''baseMint'' \<mapsto> baseMint p,
      ''quoteMint'' \<mapsto> quoteMint p,
      ''baseVault'' \<mapsto> baseVault p,
      ''quoteVault'' \<mapsto> quoteVault p,
      ''targetOrders'' \<mapsto> account_at accounts idx 13,
      ''marketProgramId'' \<mapsto> account_at accounts idx 15,
      ''marketId'' \<mapsto> account_at accounts idx 16,
      ''marketBaseVault'' \<mapsto> account_at accounts idx 18,
      ''marketQuoteVault'' \<mapsto> account_at accounts idx 19,
      ''marketAuthority'' \<mapsto> account_at accounts idx 20,
      ''initPcAmount'' \<mapsto> JDec (initQuote p),
      ''initCoinAmount'' \<mapsto> JDec (initBase p),
      ''fee'' \<mapsto> JStr ''0.003'',
      ''version'' \<mapsto> JStr ''V2'',
      ''marketVersion'' \<mapsto> JStr ''V2'']"

text \<open>
  \<^verbatim>\<open>/* pool account fields */\<close>:
  \<^verbatim>\<open>
  const poolAcc = await conn.getAccountInfo(new PublicKey(ammId));
  if (!poolAcc) return null;
  const poolData = liquidityStateV4Layout.decode(poolAcc.data);
  const lpTokenSupply = await conn.getTokenSupply(new PublicKey(lpMint));
  Object.assign(td, {
      withdrawQueue: new PublicKey(poolData.withdrawQueue).toString(),
      lpVault: new PublicKey(poolData.lpVault).toString(),
      lpDecimals: poolData.lpDecimals !== undefined
          ? Number(poolData.lpDecimals) : lpTokenSupply.value.decimals,
      nonce: Number(poolData.nonce),
      openTime: poolData.poolOpenTime
          ? poolData.poolOpenTime.toString() : poolData.openTime?.toString()
  });
  \<close>
\<close>

definition pool_account_fields ::
  "env \<Rightarrow> variant_accounts \<Rightarrow> td \<Rightarrow> error + (td \<times> pool_state) option" where
  "pool_account_fields env va t =
     bind_err (new_PublicKey env (ammId va)) (\<lambda>ammKey.
     bind_err (getAccountInfo env ammKey) (\<lambda>poolAcc.
     case poolAcc of
       None \<Rightarrow> Inr None
     | Some poolBytes \<Rightarrow>
         bind_err (layoutDecode env poolBytes) (\<lambda>poolData.
         bind_err (new_PublicKey env (lpMint va)) (\<lambda>lpKey.
         bind_err (getTokenSupply env lpKey) (\<lambda>lpTokenSupply.
         bind_err (key_field (withdrawQueue poolData)) (\<lambda>wq.
         bind_err (key_field (lpVault poolData)) (\<lambda>lv.
         Inr (Some
           (t(''withdrawQueue'' \<mapsto> JStr wq,
              ''lpVault'' \<mapsto> JStr lv,
              ''lpDecimals'' \<mapsto>
                 (case lpDecimals poolData of
                    None \<Rightarrow> JNum lpTokenSupply
                  | Some v \<Rightarrow> Number_of (Some v)),
              ''nonce'' \<mapsto> Number_of (nonce poolData),
              ''openTime'' \<mapsto>
                 toString_or (poolOpenTime poolData)
                   (case openTime poolData of
                      None \<Rightarrow> JUndefined
                    | Some v \<Rightarrow> toString v)),
            poolData)))))))))"

text \<open>
  \<^verbatim>\<open>d.subarray(a, b)\<close> for \<open>a \<le> b\<close>; both ends are clamped to the length.
\<close>

definition subarray :: "bytes \<Rightarrow> nat \<Rightarrow> nat \<Rightarrow> bytes" where
  "subarray d a b = take (b - a) (drop a d)"

text \<open>
  \<^verbatim>\<open>/* serum side-accounts */\<close>:
  \<^verbatim>\<open>
  const mAcc = await conn.getAccountInfo(new PublicKey(td.marketId));
  if (!mAcc || mAcc.data.length < 341) return null;
  const d = mAcc.data;
  Object.assign(td, {
      marketEventQueue: new PublicKey(d.subarray(245, 277)).toString(),
      marketBids: new PublicKey(d.subarray(277, 309)).toString(),
      marketAsks: new PublicKey(d.subarray(309, 341)).toString()
  });
  \<close>
\<close>

definition serum_side_accounts :: "env \<Rightarrow> td \<Rightarrow> error + td option" where
  "serum_side_accounts env t =
     bind_err (new_PublicKey env (get_field t ''marketId'')) (\<lambda>marketKey.
     bind_err (getAccountInfo env marketKey) (\<lambda>mAcc.
     case mAcc of
       None \<Rightarrow> Inr None
     | Some d \<Rightarrow>
         if length d < 341 then Inr None
         else Inr (Some
           (t(''marketEventQueue'' \<mapsto> JStr (base58 env (subarray d 245 277)),
              ''marketBids'' \<mapsto> JStr (base58 env (subarray d 277 309)),
              ''marketAsks'' \<mapsto> JStr (base58 env (subarray d 309 341)))))))"

text \<open>BigInt division truncates towards zero and throws a RangeError on a zero divisor.\<close>

definition bigint_div :: "int \<Rightarrow> int \<Rightarrow> error + int" where
  "bigint_div a b =
     (if b = 0 then Inl RangeError else Inr (sgn a * sgn b * (\<bar>a\<bar> div \<bar>b\<bar>)))"

text \<open>
  \<^verbatim>\<open>
  const Khuman = (
      BigInt(initQuote) * BigInt(initBase)
  ) / (10n ** BigInt(td.quoteDecimals + td.baseDecimals));
  \<close>
\<close>

definition Khuman :: "int \<Rightarrow> int \<Rightarrow> nat \<Rightarrow> nat \<Rightarrow> error + int" where
  "Khuman initQuote' initBase' quoteDecimals baseDecimals =
     bigint_div (initQuote' * initBase') (10 ^ (quoteDecimals + baseDecimals))"

text \<open>
  \<^verbatim>\<open>/* true decimals */\<close>, \<^verbatim>\<open>/* human-unit constant product */\<close> and
  \<^verbatim>\<open>/* launch price V in SOL */\<close>:
  \<^verbatim>\<open>
  const [baseDec, quoteDec] = await Promise.all([
      conn.getTokenSupply(new PublicKey(baseMint)),
      conn.getTokenSupply(new PublicKey(quoteMint))
  ]);
  td.baseDecimals = baseDec.value.decimals;
  td.quoteDecimals = quoteDec.value.decimals;
  td.K = Khuman.toString();
  td.V = ((Number(initQuote) / 10 ** td.quoteDecimals) /
          (Number(initBase) / 10 ** td.baseDecimals)).toString();
  td.isWSOLSwap = td.quoteMint === WSOL_MINT;
  if (td.isWSOLSwap) td.wrappedSOLAmount = initQuote;
  \<close>
  The floating-point quotient \<open>V\<close> is the environment's \<open>launchPrice\<close>.
\<close>

definition economics :: "env \<Rightarrow> pair_fields \<Rightarrow> td \<Rightarrow> error + td" where
  "economics env p t =
     bind_err (new_PublicKey env (baseMint p)) (\<lambda>baseKey.
     bind_err (new_PublicKey env (quoteMint p)) (\<lambda>quoteKey.
     bind_err (getTokenSupply env baseKey) (\<lambda>baseDec.
     bind_err (getTokenSupply env quoteKey) (\<lambda>quoteDec.
     bind_err (Khuman (initQuote p) (initBase p) quoteDec baseDec) (\<lambda>k.
     let t1 = t(''baseDecimals'' \<mapsto> JNum baseDec,
                ''quoteDecimals'' \<mapsto> JNum quoteDec,
                ''K'' \<mapsto> JDec k,
                ''V'' \<mapsto> JStr (launchPrice env (initQuote p) quoteDec (initBase p) baseDec));
         isWSOLSwap = (get_field t1 ''quoteMint'' = JStr WSOL_MINT);
         t2 = t1(''isWSOLSwap'' \<mapsto> JBool isWSOLSwap)
     in Inr (if isWSOLSwap then t2(''wrappedSOLAmount'' \<mapsto> JDec (initQuote p)) else t2))))))"

text \<open>
  \<^verbatim>\<open>
  function getAssociatedTokenAddress(owner, mint) {
      return PublicKey.findProgramAddressSync(
          [owner.toBuffer(), TOKEN_PROGRAM_ID.toBuffer(), mint.toBuffer()],
          ASSOCIATED_TOKEN_PROGRAM_ID
      )[0];
  }
  \<close>
\<close>

definition getAssociatedTokenAddress :: "env \<Rightarrow> pubkey \<Rightarrow> pubkey \<Rightarrow> error + pubkey" where
  "getAssociatedTokenAddress env owner mint =
     findProgramAddressSync env [owner, TOKEN_PROGRAM_ID, mint] ASSOCIATED_TOKEN_PROGRAM_ID"

text \<open>
  \<^verbatim>\<open>ADDED FOR SWAP SUPPORT\<close>: the token program id, the vault owner derived from the
  market id under the market program, the user's two associated token accounts and the
  user's address.
\<close>

definition swap_support :: "env \<Rightarrow> pubkey \<Rightarrow> td \<Rightarrow> error + td" where
  "swap_support env user t =
     (let t1 = t(''tokenProgramId'' \<mapsto> JStr TOKEN_PROGRAM_ID) in
      bind_err (new_PublicKey env (get_field t1 ''marketId'')) (\<lambda>marketKey.
      bind_err (new_PublicKey env (get_field t1 ''marketProgramId'')) (\<lambda>marketProgram.
      bind_err (findProgramAddressSync env [marketKey] marketProgram) (\<lambda>vaultOwner.
      let t2 = t1(''vaultOwner'' \<mapsto> JStr vaultOwner) in
      bind_err (new_PublicKey env (get_field t2 ''baseMint'')) (\<lambda>baseKey.
      bind_err (getAssociatedTokenAddress env user baseKey) (\<lambda>userBase.
      let t3 = t2(''userBaseTokenAccount'' \<mapsto> JStr userBase) in
      bind_err (new_PublicKey env (get_field t3 ''quoteMint'')) (\<lambda>quoteKey.
      bind_err (getAssociatedTokenAddress env user quoteKey) (\<lambda>userQuote.
      Inr (t3(''userQuoteTokenAccount'' \<mapsto> JStr userQuote,
              ''userSolAddress'' \<mapsto> JStr user))))))))))"

text \<open>
  \<^verbatim>\<open>ADDITIONAL FIELDS FOR SDK V2 COMPATIBILITY\<close>, the body of the \<^verbatim>\<open>try\<close>:
  \<^verbatim>\<open>
  td.swapFeeNumerator = Number(poolData.swapFeeNumerator) || 25;
  td.swapFeeDenominator = Number(poolData.swapFeeDenominator) || 10000;
  td.ownerTradeFeeNumerator = Number(poolData.ownerTradeFeeNumerator) || 5;
  td.ownerTradeFeeDenominator = Number(poolData.ownerTradeFeeDenominator) || 10000;
  td.ownerWithdrawFeeNumerator = Number(poolData.ownerWithdrawFeeNumerator) || 0;
  td.ownerWithdrawFeeDenominator = Number(poolData.ownerWithdrawFeeDenominator) || 10000;
  td.status = Number(poolData.status) || 6;
  td.state = Number(poolData.state) || 1;
  td.resetFlag = Number(poolData.resetFlag) || 0;
  td.minSize = poolData.minSize ? poolData.minSize.toString() : '1';
  td.volMaxCutRatio = poolData.volMaxCutRatio ? poolData.volMaxCutRatio.toString() : '0';
  td.pnlNumerator = poolData.pnlNumerator ? poolData.pnlNumerator.toString() : '0';
  td.pnlDenominator = poolData.pnlDenominator ? poolData.pnlDenominator.toString() : '1';
  td.depth = poolData.depth ? poolData.depth.toString() : '0';
  td.coinDeposited = poolData.coinDeposited ? poolData.coinDeposited.toString() : initBase;
  td.pcDeposited = poolData.pcDeposited ? poolData.pcDeposited.toString() : initQuote;
  td.systemDecimalsValue = Number(poolData.systemDecimalsValue) || 6;
  td.poolOpenTime = poolData.poolOpenTime ? poolData.poolOpenTime.toString()
      : Math.floor(Date.now() / 1000).toString();
  \<close>
  No statement of the body throws on a decoded pool state, so the \<^verbatim>\<open>catch\<close> branch
  (which stores the same defaults) is never entered. The literals \<^verbatim>\<open>'1'\<close> and \<^verbatim>\<open>'0'\<close> are
  the decimal strings of 1 and 0, hence \<open>JDec 1\<close> and \<open>JDec 0\<close>: the same values as
  \<^verbatim>\<open>toString()\<close> of a BN holding 1 or 0.
\<close>

definition sdk_fields :: "env \<Rightarrow> pair_fields \<Rightarrow> pool_state \<Rightarrow> td \<Rightarrow> td" where
  "sdk_fields env p poolData t =
     t(''swapFeeNumerator'' \<mapsto> or_default (Number_of (swapFeeNumerator poolData)) 25,
       ''swapFeeDenominator'' \<mapsto> or_default (Number_of (swapFeeDenominator poolData)) 10000,
       ''ownerTradeFeeNumerator'' \<mapsto>
          or_default (Number_of (ownerTradeFeeNumerator poolData)) 5,
       ''ownerTradeFeeDenominator'' \<mapsto>
          or_default (Number_of (ownerTradeFeeDenominator poolData)) 10000,
       ''ownerWithdrawFeeNumerator'' \<mapsto>
          or_default (Number_of (ownerWithdrawFeeNumerator poolData)) 0,
       ''ownerWithdrawFeeDenominator'' \<mapsto>
          or_default (Number_of (ownerWithdrawFeeDenominator poolData)) 10000,
       ''status'' \<mapsto> or_default (Number_of (status poolData)) 6,
       ''state'' \<mapsto> or_default (Number_of (state poolData)) 1,
       ''resetFlag'' \<mapsto> or_default (Number_of (resetFlag poolData)) 0,
       ''minSize'' \<mapsto> toString_or (minSize poolData) (JDec 1),
       ''volMaxCutRatio'' \<mapsto> toString_or (volMaxCutRatio poolData) (JDec 0),
       ''pnlNumerator'' \<mapsto> toString_or (pnlNumerator poolData) (JDec 0),
       ''pnlDenominator'' \<mapsto> toString_or (pnlDenominator poolData) (JDec 1),
       ''depth'' \<mapsto> toString_or (depth poolData) (JDec 0),
       ''coinDeposited'' \<mapsto> toString_or (coinDeposited poolData) (JDec (initBase p)),
       ''pcDeposited'' \<mapsto> toString_or (pcDeposited poolData) (JDec (initQuote p)),
       ''systemDecimalsValue'' \<mapsto> or_default (Number_of (systemDecimalsValue poolData)) 6,
       ''poolOpenTime'' \<mapsto> toString_or (poolOpenTime poolData) (JDec (int (nowSeconds env))))"

text \<open>
  \<^verbatim>\<open>
  if (!td.marketAuthority || td.marketAuthority === 'undefined') {
      try {
          const [derivedMarketAuth] = PublicKey.findProgramAddressSync(
              [new PublicKey(td.marketId).toBuffer()], new PublicKey(td.marketProgramId));
          td.marketAuthority = derivedMarketAuth.toString();
      } catch (error) {
          td.marketAuthority = td.vaultOwner;
      }
  }
  \<close>
\<close>

definition market_authority :: "env \<Rightarrow> td \<Rightarrow> td" where
  "market_authority env t =
     (if get_field t ''marketAuthority'' = JUndefined
         \<or> get_field t ''marketAuthority'' = JStr []
         \<or> get_field t ''marketAuthority'' = JStr ''undefined''
      then
        (case bind_err (new_PublicKey env (get_field t ''marketId'')) (\<lambda>marketKey.
              bind_err (new_PublicKey env (get_field t ''marketProgramId'')) (\<lambda>marketProgram.
              findProgramAddressSync env [marketKey] marketProgram)) of
           Inr derivedMarketAuth \<Rightarrow> t(''marketAuthority'' \<mapsto> JStr derivedMarketAuth)
         | Inl e \<Rightarrow> t(''marketAuthority'' \<mapsto> get_field t ''vaultOwner''))
      else t)"

text \<open>The lookup table account, the route type and the metadata of the newer SDK.\<close>

definition metadata :: "env \<Rightarrow> string \<Rightarrow> td \<Rightarrow> td" where
  "metadata env sig t =
     t(''lookupTableAccount'' \<mapsto> JStr PublicKey_default,
       ''routeType'' \<mapsto> JStr ''amm'',
       ''sdkVersion'' \<mapsto> JStr ''2'',
       ''ammVersion'' \<mapsto> JNum 4,
       ''createdAt'' \<mapsto> JStr (nowISO env),
       ''signature'' \<mapsto> JStr sig)"

subsection \<open>The pipeline\<close>

text \<open>
  Everything the loop body does for the matching instruction before it touches the
  record store: \<open>Inr (Some t)\<close> is the record handed to \<^verbatim>\<open>insertOne\<close>.
\<close>

definition buildRecord ::
  "env \<Rightarrow> pubkey \<Rightarrow> string \<Rightarrow> pubkey list \<Rightarrow> compiled_instruction \<Rightarrow> error + td option" where
  "buildRecord env user sig accounts ix =
     (let idx = accountKeyIndexes ix in
      bind_err (parseInit2 (data ix)) (\<lambda>params.
      let va = map_accounts accounts idx;
          p = canonicalize (raw_pair accounts idx params);
          t0 = td_base env accounts idx va p
      in
      bind_err (pool_account_fields env va t0) (\<lambda>r1.
      case r1 of
        None \<Rightarrow> Inr None
      | Some (t1, poolData) \<Rightarrow>
          bind_err (serum_side_accounts env t1) (\<lambda>r2.
          case r2 of
            None \<Rightarrow> Inr None
          | Some t2 \<Rightarrow>
              bind_err (economics env p t2) (\<lambda>t3.
              bind_err (swap_support env user t3) (\<lambda>t4.
              Inr (Some (metadata env sig
                (market_authority env (sdk_fields env p poolData t4))))))))))"

text \<open>
  \<^verbatim>\<open>
  const { insertedId } = await (await connectDB())
      .collection('raydium_lp_transactionsV3').insertOne(td);
  return { ...td, tokenId: insertedId };
  \<close>
  The result of a call is what it returns or throws, paired with the documents it
  inserted into the collection. (The \<^verbatim>\<open>_id\<close> property the driver adds to the inserted
  document is left out.)
\<close>

type_synonym outcome = "(error + td option) \<times> td list"

definition processInstruction ::
  "env \<Rightarrow> pubkey \<Rightarrow> string \<Rightarrow> pubkey list \<Rightarrow> compiled_instruction \<Rightarrow> outcome" where
  "processInstruction env user sig accounts ix =
     (case buildRecord env user sig accounts ix of
        Inl e \<Rightarrow> (Inl e, [])
      | Inr None \<Rightarrow> (Inr None, [])
      | Inr (Some t) \<Rightarrow>
          (case insertOne env t of
             Inl e \<Rightarrow> (Inl e, [])
           | Inr insertedId \<Rightarrow> (Inr (Some (t(''tokenId'' \<mapsto> insertedId))), [t])))"

text \<open>\<^verbatim>\<open>accounts[ix.programIdIndex]\<close>\<close>

definition program_of :: "pubkey list \<Rightarrow> compiled_instruction \<Rightarrow> jsval" where
  "program_of accounts ix =
     (if programIdIndex ix < length accounts then JStr (accounts ! programIdIndex ix)
      else JUndefined)"

text \<open>
  \<^verbatim>\<open>
  for (const ix of ixs) {
      if (accounts[ix.programIdIndex] !== RAYDIUM_AMM.toString()) continue;
      ...
      return { ...td, tokenId: insertedId };
  }
  return null;
  \<close>
  Every path through the body for a matching instruction returns or throws, so the first
  matching instruction decides the call.
\<close>

fun scan_instructions ::
  "env \<Rightarrow> pubkey \<Rightarrow> string \<Rightarrow> pubkey list \<Rightarrow> compiled_instruction list \<Rightarrow> outcome" where
  "scan_instructions env user sig accounts [] = (Inr None, [])"
| "scan_instructions env user sig accounts (ix # ixs) =
     (if program_of accounts ix \<noteq> JStr (RAYDIUM_AMM env)
      then scan_instructions env user sig accounts ixs
      else processInstruction env user sig accounts ix)"

text \<open>
  \<^verbatim>\<open>
  async function processRaydiumLpTransaction(conn, sig) {
      if (!process.env.USER_SOLANA_ADDRESS) {
          throw new Error('USER_SOLANA_ADDRESS not found in .env');
      }
      const USER_ADDRESS = new PublicKey(process.env.USER_SOLANA_ADDRESS);
      const tx = await conn.getTransaction(sig, {...});
      if (!tx) return null;
      ...
  \<close>
\<close>

definition processRaydiumLpTransaction :: "env \<Rightarrow> string \<Rightarrow> outcome" where
  "processRaydiumLpTransaction env sig =
     (case USER_SOLANA_ADDRESS env of
        None \<Rightarrow> (Inl ConfigError, [])
      | Some u \<Rightarrow>
          if u = [] then (Inl ConfigError, [])
          else
            (case new_PublicKey env (JStr u) of
               Inl e \<Rightarrow> (Inl e, [])
             | Inr user \<Rightarrow>
                 (case getTransaction env sig of
                    Inl e \<Rightarrow> (Inl e, [])
                  | Inr None \<Rightarrow> (Inr None, [])
                  | Inr (Some msg) \<Rightarrow>
                      scan_instructions env user sig (accountKeys msg)
                        (compiledInstructions msg))))"

text \<open>
  The properties of the initial record that no later block assigns (the market authority
  is not among them).
\<close>

definition base_keys :: "string set" where
  "base_keys =
     {''programId'', ''ammId'', ''lpMint'', ''ammAuthority'', ''ammOpenOrders'', ''baseMint'',
      ''quoteMint'', ''baseVault'', ''quoteVault'', ''targetOrders'', ''marketProgramId'',
      ''marketId'', ''marketBaseVault'', ''marketQuoteVault'', ''initPcAmount'',
      ''initCoinAmount'', ''fee'', ''version'', ''marketVersion''}"

subsection \<open>A concrete run\<close>

text \<open>
  The example of the specification: a pool whose quote side is the wrapped native token,
  \<open>initPcAmount = 50_000_000_000\<close> and \<open>initCoinAmount = 1_000_000_000\<close>, both mints with 9
  decimals. The payload holds the two amounts at offsets 10 and 18; the instruction lists
  the accounts 0 to 20 in order, and account 21 is the AMM program.
\<close>

definition payload0 :: bytes where
  "payload0 =
     [0, 0, 0, 0, 0, 0, 0, 0, 0, 0,
      0x00, 0x74, 0x3B, 0xA4, 0x0B, 0, 0, 0,
      0x00, 0xCA, 0x9A, 0x3B, 0, 0, 0, 0]"

definition accounts0 :: "pubkey list" where
  "accounts0 =
     [''payer'', ''tokenProgram'', ''ataProgram'', ''systemProgram'', ''pool'',
      ''poolAuthority'', ''poolOpenOrders'', ''lpMint'', ''TOKEN'', WSOL_MINT,
      ''baseVault'', ''quoteVault'', ''withdrawQueue'', ''targetOrders'', ''lpVault'',
      ''marketProgram'', ''market'', ''userWallet'', ''marketBaseVault'',
      ''marketQuoteVault'', ''marketAuthority'', ''raydiumAmm'']"

definition ix0 :: compiled_instruction where
  "ix0 =
     \<lparr>programIdIndex = 21,
      accountKeyIndexes = [0, 1, 2, 3, 4, 5, 6, 7, 8, 9, 10, 11, 12, 13, 14, 15, 16, 17, 18, 19, 20],
      data = payload0\<rparr>"

definition pool0 :: pool_state where
  "pool0 =
     \<lparr>withdrawQueue = Some ''withdrawQueue'', lpVault = Some ''lpVault'',
      lpDecimals = None, nonce = Some (LBN 254),
      poolOpenTime = Some (LBN 0), openTime = None,
      swapFeeNumerator = Some (LBN 0), swapFeeDenominator = Some (LBN 0),
      ownerTradeFeeNumerator = Some (LBN 0), ownerTradeFeeDenominator = Some (LBN 0),
      ownerWithdrawFeeNumerator = Some (LBN 0), ownerWithdrawFeeDenominator = Some (LBN 0),
      status = Some (LBN 0), state = Some (LBN 0), resetFlag = Some (LBN 0),
      minSize = Some (LBN 0), volMaxCutRatio = None, pnlNumerator = Some (LNumber 0),
      pnlDenominator = Some (LBN 0), depth = Some (LBN 3), coinDeposited = None,
      pcDeposited = Some (LBN 0), systemDecimalsValue = Some (LBN 0)\<rparr>"

definition env0 :: env where
  "env0 =
     \<lparr>USER_SOLANA_ADDRESS = Some ''userWallet'',
      RAYDIUM_AMM = ''raydiumAmm'',
      validKey = (\<lambda>s. True),
      getTransaction =
        (\<lambda>sig. Inr (Some \<lparr>accountKeys = accounts0, compiledInstructions = [ix0]\<rparr>)),
      getAccountInfo =
        (\<lambda>k. if k = ''market'' then Inr (Some (replicate 341 0)) else Inr (Some [])),
      getTokenSupply = (\<lambda>k. Inr 9),
      layoutDecode = (\<lambda>b. Inr pool0),
      findProgramAddressSync = (\<lambda>seeds program. Inr (concat seeds @ program)),
      base58 = (\<lambda>b. ''sideAccount''),
      launchPrice = (\<lambda>q qd b bd. ''50''),
      nowSeconds = 1700000000,
      nowISO = ''2023-11-14T22:13:20.000Z'',
      insertOne = (\<lambda>t. Inr (JStr ''id0''))\<rparr>"

text \<open>
  The same accounts with the wrapped native token on the raw base side (slot 8) and its
  vault in slot 10.
\<close>

definition accounts_flipped :: "pubkey list" where
  "accounts_flipped =
     [''payer'', ''tokenProgram'', ''ataProgram'', ''systemProgram'', ''pool'',
      ''poolAuthority'', ''poolOpenOrders'', ''lpMint'', WSOL_MINT, ''TOKEN'',
      ''wsolVault'', ''tokenVault'', ''withdrawQueue'', ''targetOrders'', ''lpVault'',
      ''marketProgram'', ''market'', ''userWallet'', ''marketBaseVault'',
      ''marketQuoteVault'', ''marketAuthority'', ''raydiumAmm'']"

text \<open>The same ledger, except that the market account is 340 bytes long.\<close>

definition env_short_market :: env where
  "env_short_market =
     env0\<lparr>getAccountInfo :=
            (\<lambda>k. if k = ''market'' then Inr (Some (replicate 340 0)) else Inr (Some []))\<rparr>"

section \<open>The price watcher\<close>

subsection \<open>Numbers\<close>

text \<open>
  A JavaScript Number is a finite real (one that is a double), an infinity or NaN.
  Comparison is exact on these values and is defined here. Arithmetic rounds, so the
  arithmetic operators, \<^verbatim>\<open>Number(x)\<close> and \<^verbatim>\<open>Math.floor\<close> are operations of the
  runtime, taken as they are; so is the validity test of \<^verbatim>\<open>new PublicKey(s)\<close>.
\<close>

datatype jsnum = Finite real | PosInf | NegInf | NaN

text \<open>The operator \<^verbatim>\<open>a >= b\<close> on Numbers.\<close>

fun js_ge :: "jsnum \<Rightarrow> jsnum \<Rightarrow> bool" where
  "js_ge NaN b = False"
| "js_ge a NaN = False"
| "js_ge PosInf b = True"
| "js_ge a NegInf = True"
| "js_ge (Finite x) (Finite y) = (y \<le> x)"
| "js_ge a b = False"

record runtime =
  toNumber :: "jsval \<Rightarrow> jsnum"
  num_add :: "jsnum \<Rightarrow> jsnum \<Rightarrow> jsnum"
  num_sub :: "jsnum \<Rightarrow> jsnum \<Rightarrow> jsnum"
  num_mul :: "jsnum \<Rightarrow> jsnum \<Rightarrow> jsnum"
  num_div :: "jsnum \<Rightarrow> jsnum \<Rightarrow> jsnum"
  num_pow :: "jsnum \<Rightarrow> jsnum \<Rightarrow> jsnum"
  num_floor :: "jsnum \<Rightarrow> jsnum"
  isKey :: "string \<Rightarrow> bool"

subsection \<open>The Sniper object\<close>

text \<open>
  The repository holds two copies of the class: \<^verbatim>\<open>src/sniper.js\<close> and the copy
  \<^verbatim>\<open>src/unnamed/part_002\<close>. They differ in \<^verbatim>\<open>executeBuy\<close> (a \<^verbatim>\<open>try/finally\<close> around the
  trade), in \<^verbatim>\<open>executeSell\<close> (a check that the record was found) and in the name of the
  property under which the record is handed to the trade executor.
\<close>

datatype source_file = SniperJs | Part002

text \<open>
  \<open>props\<close> are the properties copied by \<^verbatim>\<open>Object.assign(this, cfg)\<close>; the other fields
  are the ones the constructor assigns itself. (The wallet and the ledger connection the
  constructor creates are not part of the state.)
\<close>

record sniper =
  props :: td
  buyAmount :: jsval
  targetMultiplier :: jsnum
  calculatedSell :: jsnum
  decimalFactor :: jsnum
  fullLpData :: "td option"
  vaultSubId :: "nat option"

text \<open>
  \<^verbatim>\<open>
  constructor(cfg, fullLpData = null) {
      Object.assign(this, cfg);          // tokenId, ammId, K, V, etc.
      this.buyAmount        = cfg.buyAmount;
      this.targetMultiplier = 1 + cfg.sellTargetPrice / 100;
      this.calculatedSell   = cfg.V * this.targetMultiplier;
      this.decimalFactor = 10 ** (this.quoteDecimals - this.baseDecimals);
      ...
      this.fullLpData = fullLpData;      // cleared after buy
      this.vaultSubId = null;
      this.db         = null;
  }
  \<close>
\<close>

definition new_Sniper :: "runtime \<Rightarrow> td \<Rightarrow> td option \<Rightarrow> sniper" where
  "new_Sniper R cfg lp =
     (let tm = num_add R (Finite 1)
                 (num_div R (toNumber R (get_field cfg ''sellTargetPrice'')) (Finite 100))
      in \<lparr>props = cfg,
          buyAmount = get_field cfg ''buyAmount'',
          targetMultiplier = tm,
          calculatedSell = num_mul R (toNumber R (get_field cfg ''V'')) tm,
          decimalFactor =
            num_pow R (Finite 10)
              (num_sub R (toNumber R (get_field cfg ''quoteDecimals''))
                         (toNumber R (get_field cfg ''baseDecimals''))),
          fullLpData = lp,
          vaultSubId = None\<rparr>)"

text \<open>\<^verbatim>\<open>toLamports(x, dec) { return Math.floor(x * 10 ** dec); }\<close>\<close>

definition toLamports :: "runtime \<Rightarrow> jsval \<Rightarrow> jsval \<Rightarrow> jsnum" where
  "toLamports R x dec =
     num_floor R (num_mul R (toNumber R x) (num_pow R (Finite 10) (toNumber R dec)))"

text \<open>
  What \<^verbatim>\<open>getTokenBalance\<close> returns: the Number 0, or the string
  \<^verbatim>\<open>bal.value.amount\<close>; the buy passes a Number.
\<close>

datatype amount = AmountNumber jsnum | AmountString string

text \<open>
  One call of \<^verbatim>\<open>swapCreator.swapTokens\<close>, the external trade executor: the argument
  object. \<^verbatim>\<open>src/sniper.js\<close> passes the record as \<^verbatim>\<open>lpData\<close>, the other copy as
  \<^verbatim>\<open>tokenData\<close>.
\<close>

record swap_call =
  call_lpData :: "td option"
  call_tokenData :: "td option"
  amountSpecified :: amount
  swapBaseIn :: bool
  isInputSOL :: bool
  isOutputSOL :: bool

definition swap_call_of ::
  "source_file \<Rightarrow> td \<Rightarrow> amount \<Rightarrow> bool \<Rightarrow> bool \<Rightarrow> bool \<Rightarrow> swap_call" where
  "swap_call_of f lp amt baseIn inSOL outSOL =
     \<lparr>call_lpData = (case f of SniperJs \<Rightarrow> Some lp | Part002 \<Rightarrow> None),
      call_tokenData = (case f of SniperJs \<Rightarrow> None | Part002 \<Rightarrow> Some lp),
      amountSpecified = amt, swapBaseIn = baseIn, isInputSOL = inSOL, isOutputSOL = outSOL\<rparr>"

subsection \<open>The buy\<close>

text \<open>
  \<^verbatim>\<open>src/sniper.js\<close>:
  \<^verbatim>\<open>
  async executeBuy() {
      if (!this.fullLpData) throw new Error('LP data missing for buy phase');
      await swapCreator.swapTokens({
          lpData: this.fullLpData,
          amountSpecified: this.toLamports(this.buyAmount, this.quoteDecimals),
          swapBaseIn: false,
          owner: this.owner,
          isInputSOL: this.fullLpData.quoteMint === WSOL_MINT,
          isOutputSOL: this.fullLpData.baseMint === WSOL_MINT
      });
      // Free memory
      this.fullLpData = null;
  }
  \<close>
  \<^verbatim>\<open>src/unnamed/part_002\<close>:
  \<^verbatim>\<open>
      try {
          await swapCreator.swapTokens({ tokenData: this.fullLpData, ... });
      } finally {
          // Free memory even if swap fails (FIXED MEMORY CLEARING)
          this.fullLpData = null;
      }
  \<close>
  The function takes the outcome of the awaited trade and returns what the call returns
  or throws, the object afterwards, and the calls made to the trade executor.
\<close>

definition executeBuy ::
  "runtime \<Rightarrow> source_file \<Rightarrow> sniper \<Rightarrow> error + unit
     \<Rightarrow> (error + unit) \<times> sniper \<times> swap_call list" where
  "executeBuy R f s swapResult =
     (case fullLpData s of
        None \<Rightarrow> (Inl LpDataMissing, s, [])
      | Some lp \<Rightarrow>
          let call = swap_call_of f lp
                (AmountNumber (toLamports R (buyAmount s) (get_field (props s) ''quoteDecimals'')))
                False
                (get_field lp ''quoteMint'' = JStr WSOL_MINT)
                (get_field lp ''baseMint'' = JStr WSOL_MINT)
          in (case swapResult of
                Inr u \<Rightarrow> (Inr (), s\<lparr>fullLpData := None\<rparr>, [call])
              | Inl e \<Rightarrow>
                  (case f of
                     SniperJs \<Rightarrow> (Inl e, s, [call])
                   | Part002 \<Rightarrow> (Inl e, s\<lparr>fullLpData := None\<rparr>, [call]))))"

subsection \<open>The watcher as an event loop\<close>

text \<open>
  The notification callback is an \<^verbatim>\<open>async\<close> function: it runs until its next
  \<^verbatim>\<open>await\<close> and is resumed later with the outcome of the awaited operation, and other
  callbacks run in between. A \<open>pc\<close> is where one invocation of the callback stands:
  awaiting the record store in \<^verbatim>\<open>executeSell\<close>, awaiting the owner's token accounts or
  the balance in \<^verbatim>\<open>getTokenBalance\<close> (holding the fetched record), awaiting the trade,
  awaiting \<^verbatim>\<open>removeAccountChangeListener\<close> in \<^verbatim>\<open>unsubscribe\<close>, or settled.
\<close>

datatype pc =
    AwaitFetch
  | AwaitAccounts "td option"
  | AwaitBalance "td option"
  | AwaitSwap
  | AwaitRemove
  | Done
  | Rejected error

text \<open>The outcome of an awaited operation.\<close>

datatype response =
    Fetched "td option"
  | Accounts "pubkey list"
  | Balance string
  | Swapped
  | Removed
  | Threw error

text \<open>
  What happens next: the ledger delivers an account-change notification with the
  account's \<^verbatim>\<open>lamports\<close>, or the operation the \<open>i\<close>-th callback awaits settles.
\<close>

datatype event = Notify jsnum | Resume nat response

text \<open>
  The session: the object, whether its listener is registered with the connection, the
  callbacks started so far, and the calls made to the trade executor.
\<close>

record world =
  self :: sniper
  listening :: bool
  tasks :: "pc list"
  trades :: "swap_call list"

text \<open>
  \<^verbatim>\<open>
  async subscribeToVault() {
      const quoteVault = new PublicKey(this.quoteVault);
      this.vaultSubId = this.connection.onAccountChange(quoteVault, async ({ lamports }) => {...},
          'confirmed');
  }
  \<close>
  \<open>subId\<close> is the subscription id the connection hands out.
\<close>

definition subscribeToVault :: "runtime \<Rightarrow> sniper \<Rightarrow> nat \<Rightarrow> error + world" where
  "subscribeToVault R s subId =
     (case get_field (props s) ''quoteVault'' of
        JStr k \<Rightarrow>
          if isKey R k
          then Inr \<lparr>self = s\<lparr>vaultSubId := Some subId\<rparr>, listening = True, tasks = [], trades = []\<rparr>
          else Inl TypeError
      | _ \<Rightarrow> Inl TypeError)"

text \<open>
  \<^verbatim>\<open>
  const quoteHuman = lamports / 10 ** this.quoteDecimals;
  const priceNow = Number(this.K) / quoteHuman;
  \<close>
\<close>

definition priceNow :: "runtime \<Rightarrow> sniper \<Rightarrow> jsnum \<Rightarrow> jsnum" where
  "priceNow R s lamports =
     (let quoteHuman =
            num_div R lamports
              (num_pow R (Finite 10) (toNumber R (get_field (props s) ''quoteDecimals'')))
      in num_div R (toNumber R (get_field (props s) ''K'')) quoteHuman)"

text \<open>
  The callback up to its first \<^verbatim>\<open>await\<close>:
  \<^verbatim>\<open>
  if (priceNow >= this.calculatedSell) {
      await this.executeSell();
      await this.unsubscribe();
  }
  \<close>
  where \<^verbatim>\<open>executeSell\<close> starts with
  \<^verbatim>\<open>const lpData = await this.fetchFromMongo();\<close>
\<close>

definition on_account_change :: "runtime \<Rightarrow> sniper \<Rightarrow> jsnum \<Rightarrow> pc" where
  "on_account_change R s lamports =
     (if js_ge (priceNow R s lamports) (calculatedSell s) then AwaitFetch else Done)"

text \<open>
  \<^verbatim>\<open>executeSell\<close> after the record store answered. The copy in part_002 throws when
  no record was found; then both evaluate the argument of \<^verbatim>\<open>swapTokens\<close>, which starts
  \<^verbatim>\<open>getTokenBalance\<close>:
  \<^verbatim>\<open>
  const res = await this.connection.getTokenAccountsByOwner(
      this.owner.publicKey, { mint: new PublicKey(this.baseMint) });
  \<close>
\<close>

definition after_fetch :: "runtime \<Rightarrow> source_file \<Rightarrow> sniper \<Rightarrow> td option \<Rightarrow> pc" where
  "after_fetch R f s lpData =
     (if f = Part002 \<and> lpData = None then Rejected LpDataMissing
      else
        (case get_field (props s) ''baseMint'' of
           JStr k \<Rightarrow> if isKey R k then AwaitAccounts lpData else Rejected TypeError
         | _ \<Rightarrow> Rejected TypeError))"

text \<open>
  The rest of the argument object and the call:
  \<^verbatim>\<open>
  await swapCreator.swapTokens({
      lpData,
      amountSpecified: await this.getTokenBalance(),
      swapBaseIn: true,
      owner: this.owner,
      isInputSOL: lpData.baseMint === WSOL_MINT,
      isOutputSOL: lpData.quoteMint === WSOL_MINT
  });
  \<close>
  Reading \<^verbatim>\<open>lpData.baseMint\<close> throws a TypeError when \<^verbatim>\<open>lpData\<close> is \<^verbatim>\<open>null\<close>.
\<close>

definition issue_sell :: "source_file \<Rightarrow> td option \<Rightarrow> amount \<Rightarrow> pc \<times> swap_call list" where
  "issue_sell f lpData amt =
     (case lpData of
        None \<Rightarrow> (Rejected TypeError, [])
      | Some lp \<Rightarrow>
          (AwaitSwap,
           [swap_call_of f lp amt True
              (get_field lp ''baseMint'' = JStr WSOL_MINT)
              (get_field lp ''quoteMint'' = JStr WSOL_MINT)]))"

text \<open>
  \<^verbatim>\<open>
  async unsubscribe() {
      if (this.vaultSubId) {
          await this.connection.removeAccountChangeListener(this.vaultSubId);
          this.vaultSubId = null;
      }
  }
  \<close>
  A subscription id is a Number, and 0 is falsy. The connection drops the listener when
  \<^verbatim>\<open>removeAccountChangeListener\<close> is called.
\<close>

definition unsubscribe_start :: "world \<Rightarrow> pc \<times> world" where
  "unsubscribe_start w =
     (case vaultSubId (self w) of
        None \<Rightarrow> (Done, w)
      | Some subId \<Rightarrow>
          if subId = 0 then (Done, w) else (AwaitRemove, w\<lparr>listening := False\<rparr>))"

text \<open>
  \<^verbatim>\<open>getTokenBalance\<close> once the owner's token accounts for the base mint are known:
  \<^verbatim>\<open>
  if (res.value.length === 0) return 0;
  const bal = await this.connection.getTokenAccountBalance(res.value[0].pubkey);
  return bal.value.amount;
  \<close>
  \<open>Some v\<close> is the value it returns at once, \<open>None\<close> that it goes on to await the
  balance.
\<close>

definition getTokenBalance_accounts :: "pubkey list \<Rightarrow> amount option" where
  "getTokenBalance_accounts accs =
     (case accs of [] \<Rightarrow> Some (AmountNumber (Finite 0)) | a # rest \<Rightarrow> None)"

text \<open>
  Resuming a callback that stands at \<open>p\<close> with the outcome \<open>r\<close> of what it awaited: the
  new position and the session. A rejected operation rejects the callback: no \<^verbatim>\<open>try\<close>
  encloses any \<^verbatim>\<open>await\<close> of the callback, of \<^verbatim>\<open>executeSell\<close> or of
  \<^verbatim>\<open>unsubscribe\<close>. An outcome of the wrong kind, or one for a settled callback, changes
  nothing.
\<close>

fun resume :: "runtime \<Rightarrow> source_file \<Rightarrow> world \<Rightarrow> pc \<Rightarrow> response \<Rightarrow> pc \<times> world" where
  "resume R f w AwaitFetch (Fetched lpData) = (after_fetch R f (self w) lpData, w)"
| "resume R f w AwaitFetch (Threw e) = (Rejected e, w)"
| "resume R f w (AwaitAccounts lpData) (Accounts accs) =
     (case getTokenBalance_accounts accs of
        Some amt \<Rightarrow>
          (case issue_sell f lpData amt of
             (p, calls) \<Rightarrow> (p, w\<lparr>trades := trades w @ calls\<rparr>))
      | None \<Rightarrow> (AwaitBalance lpData, w))"
| "resume R f w (AwaitAccounts lpData) (Threw e) = (Rejected e, w)"
| "resume R f w (AwaitBalance lpData) (Balance amt) =
     (case issue_sell f lpData (AmountString amt) of
        (p, calls) \<Rightarrow> (p, w\<lparr>trades := trades w @ calls\<rparr>))"
| "resume R f w (AwaitBalance lpData) (Threw e) = (Rejected e, w)"
| "resume R f w AwaitSwap Swapped = unsubscribe_start w"
| "resume R f w AwaitSwap (Threw e) = (Rejected e, w)"
| "resume R f w AwaitRemove Removed = (Done, w\<lparr>self := (self w)\<lparr>vaultSubId := None\<rparr>\<rparr>)"
| "resume R f w AwaitRemove (Threw e) = (Rejected e, w)"
| "resume R f w p r = (p, w)"

text \<open>
  One event. A notification reaches the callback only while the listener is registered;
  it starts a new callback.
\<close>

fun step :: "runtime \<Rightarrow> source_file \<Rightarrow> world \<Rightarrow> event \<Rightarrow> world" where
  "step R f w (Notify lamports) =
     (if listening w
      then w\<lparr>tasks := tasks w @ [on_account_change R (self w) lamports]\<rparr>
      else w)"
| "step R f w (Resume i r) =
     (if i < length (tasks w)
      then (case resume R f w (tasks w ! i) r of
              (p, w') \<Rightarrow> w'\<lparr>tasks := (tasks w')[i := p]\<rparr>)
      else w)"

fun run :: "runtime \<Rightarrow> source_file \<Rightarrow> world \<Rightarrow> event list \<Rightarrow> world" where
  "run R f w [] = w"
| "run R f w (ev # evs) = run R f (step R f w ev) evs"

text \<open>A callback is settled when its promise has resolved or rejected.\<close>

fun settled :: "pc \<Rightarrow> bool" where
  "settled Done = True"
| "settled (Rejected e) = True"
| "settled p = False"

text \<open>
  A schedule in which the callbacks do not overlap and no trade fails: a notification is
  delivered only when every earlier callback has settled, and the trade a callback awaits
  never rejects.
\<close>

fun allowed :: "world \<Rightarrow> event \<Rightarrow> bool" where
  "allowed w (Notify lamports) = list_all settled (tasks w)"
| "allowed w (Resume i (Threw e)) = (\<not> (i < length (tasks w) \<and> tasks w ! i = AwaitSwap))"
| "allowed w (Resume i r) = True"

fun one_at_a_time :: "runtime \<Rightarrow> source_file \<Rightarrow> world \<Rightarrow> event list \<Rightarrow> bool" where
  "one_at_a_time R f w [] = True"
| "one_at_a_time R f w (ev # evs) = (allowed w ev \<and> one_at_a_time R f (step R f w ev) evs)"

text \<open>
  The positions before the trade is issued, and the callbacks that have not settled.
\<close>

fun pre_swap :: "pc \<Rightarrow> bool" where
  "pre_swap AwaitFetch = True"
| "pre_swap (AwaitAccounts lpData) = True"
| "pre_swap (AwaitBalance lpData) = True"
| "pre_swap p = False"

definition pending :: "world \<Rightarrow> pc list" where
  "pending w = filter (\<lambda>p. \<not> settled p) (tasks w)"

text \<open>
  The three phases of a session whose callbacks do not overlap: no trade yet and at most
  one callback on its way to the trade; one trade issued and awaited; one trade done and
  the listener dropped.
\<close>

definition watching :: "world \<Rightarrow> bool" where
  "watching w \<longleftrightarrow>
     trades w = [] \<and> listening w \<and> (\<exists>subId. vaultSubId (self w) = Some subId \<and> subId \<noteq> 0)
     \<and> (pending w = [] \<or> (\<exists>p. pending w = [p] \<and> pre_swap p))"

definition selling :: "world \<Rightarrow> bool" where
  "selling w \<longleftrightarrow>
     length (trades w) = 1 \<and> listening w
     \<and> (\<exists>subId. vaultSubId (self w) = Some subId \<and> subId \<noteq> 0)
     \<and> pending w = [AwaitSwap]"

definition closed :: "world \<Rightarrow> bool" where
  "closed w \<longleftrightarrow>
     length (trades w) = 1 \<and> \<not> listening w \<and> list_all (\<lambda>p. p = AwaitRemove) (pending w)"

text \<open>
  The notifications that trigger the exit: those delivered while the listener is
  registered whose computed price is at or above the target; and their number along a
  schedule.
\<close>

fun triggering :: "runtime \<Rightarrow> world \<Rightarrow> event \<Rightarrow> bool" where
  "triggering R w (Notify lamports) =
     (listening w \<and> js_ge (priceNow R (self w) lamports) (calculatedSell (self w)))"
| "triggering R w (Resume i r) = False"

fun triggers :: "runtime \<Rightarrow> source_file \<Rightarrow> world \<Rightarrow> event list \<Rightarrow> nat" where
  "triggers R f w [] = 0"
| "triggers R f w (ev # evs) =
     (if triggering R w ev then 1 else 0) + triggers R f (step R f w ev) evs"

subsection \<open>A concrete session\<close>

text \<open>
  An arithmetic for the examples. On finite operands it computes exactly (a power only
  for a natural exponent; a division by zero gives an infinity, or NaN for \<open>0 / 0\<close>); on
  other operands it gives NaN, which the examples never reach. It agrees with IEEE-754
  doubles on every operation the examples perform, whose exact results are doubles.
\<close>

definition exact2 :: "(real \<Rightarrow> real \<Rightarrow> real) \<Rightarrow> jsnum \<Rightarrow> jsnum \<Rightarrow> jsnum" where
  "exact2 op a b = (case a of Finite x \<Rightarrow> (case b of Finite y \<Rightarrow> Finite (op x y) | _ \<Rightarrow> NaN) | _ \<Rightarrow> NaN)"

definition exact_runtime :: runtime where
  "exact_runtime =
     \<lparr>toNumber = (\<lambda>v. case v of JNum n \<Rightarrow> Finite (real n) | JDec i \<Rightarrow> Finite (real_of_int i)
                          | _ \<Rightarrow> NaN),
      num_add = exact2 (+),
      num_sub = exact2 (-),
      num_mul = exact2 (*),
      num_div =
        (\<lambda>a b. if b = Finite 0
               then (case a of
                       Finite x \<Rightarrow> if 0 < x then PosInf else if x < 0 then NegInf else NaN
                     | _ \<Rightarrow> NaN)
               else exact2 (/) a b),
      num_pow = (\<lambda>a b. case b of Finite y \<Rightarrow> exact2 (\<lambda>x z. x ^ nat \<lfloor>y\<rfloor>) a b | _ \<Rightarrow> NaN),
      num_floor = (\<lambda>a. case a of Finite x \<Rightarrow> Finite (of_int \<lfloor>x\<rfloor>) | _ \<Rightarrow> a),
      isKey = (\<lambda>s. True)\<rparr>"

text \<open>
  The configuration of the example: launch price 50, sell target 50 percent (target price
  75), \<open>K = 75\<close>, 9 quote decimals; and the record the store returns.
\<close>

definition cfg0 :: td where
  "cfg0 =
     [''tokenId'' \<mapsto> JStr ''id0'',
      ''K'' \<mapsto> JDec 75,
      ''V'' \<mapsto> JNum 50,
      ''sellTargetPrice'' \<mapsto> JNum 50,
      ''buyAmount'' \<mapsto> JNum 1,
      ''quoteDecimals'' \<mapsto> JNum 9,
      ''baseDecimals'' \<mapsto> JNum 9,
      ''baseMint'' \<mapsto> JStr ''TOKEN'',
      ''quoteMint'' \<mapsto> JStr WSOL_MINT,
      ''quoteVault'' \<mapsto> JStr ''quoteVault'']"

definition lp0 :: td where
  "lp0 = [''baseMint'' \<mapsto> JStr ''TOKEN'', ''quoteMint'' \<mapsto> JStr WSOL_MINT]"

definition sniper0 :: sniper where
  "sniper0 = new_Sniper exact_runtime cfg0 (Some lp0)"

text \<open>The session after \<^verbatim>\<open>subscribeToVault\<close>, with subscription id 7.\<close>

definition world0 :: world where
  "world0 =
     \<lparr>self = sniper0\<lparr>vaultSubId := Some 7\<rparr>, listening = True, tasks = [], trades = []\<rparr>"

text \<open>
  A notification whose price is exactly the target (\<open>10 ^ 9\<close> lamports are one quote
  unit, and \<open>K / 1 = 75\<close>), and one whose price is below it.
\<close>

definition hit :: event where
  "hit = Notify (Finite 1000000000)"

definition miss :: event where
  "miss = Notify (Finite 2000000000)"

text \<open>
  Two notifications at the target arrive back to back; then each callback gets its record
  and an empty list of token accounts.
\<close>

definition evs_overlap :: "event list" where
  "evs_overlap =
     [hit, hit,
      Resume 0 (Fetched (Some lp0)), Resume 0 (Accounts []),
      Resume 1 (Fetched (Some lp0)), Resume 1 (Accounts [])]"

text \<open>One notification at the target, up to the point where its trade is awaited.\<close>

definition evs_in_flight :: "event list" where
  "evs_in_flight = [hit, Resume 0 (Fetched (Some lp0)), Resume 0 (Accounts [])]"

text \<open>
  A notification below the target, then one at the target whose callback runs to its end,
  then another at the target.
\<close>

definition evs_complete :: "event list" where
  "evs_complete =
     [miss, hit, Resume 1 (Fetched (Some lp0)), Resume 1 (Accounts []),
      Resume 1 Swapped, Resume 1 Removed, hit]"

text \<open>
  The same session with subscription id 0, and a schedule in which one callback runs to
  its end before the next notification at the target arrives.
\<close>

definition world_id0 :: world where
  "world_id0 =
     \<lparr>self = sniper0\<lparr>vaultSubId := Some 0\<rparr>, listening = True, tasks = [], trades = []\<rparr>"

definition evs_twice :: "event list" where
  "evs_twice =
     [hit, Resume 0 (Fetched (Some lp0)), Resume 0 (Accounts []), Resume 0 Swapped,
      hit, Resume 1 (Fetched (Some lp0)), Resume 1 (Accounts [])]"

text \<open>
  A notification below the target, one at the target whose callback runs to its end, then
  another below the target.
\<close>

definition evs_single :: "event list" where
  "evs_single =
     [miss, hit, Resume 1 (Fetched (Some lp0)), Resume 1 (Accounts []), Resume 1 Swapped,
      miss]"

section \<open>Theorems\<close>

lemma le_nat_sum: "le_nat bs = (\<Sum>i<length bs. unat (bs ! i) * 256 ^ i)"
proof (induction bs)
  case Nil
  then show ?case by simp
next
  case (Cons b bs)
  have "(\<Sum>i<Suc (length bs). unat ((b # bs) ! i) * 256 ^ i)
        = unat b + (\<Sum>i<length bs. unat (bs ! i) * 256 ^ Suc i)"
    by (subst sum.lessThan_Suc_shift) simp
  also have "\<dots> = unat b + 256 * (\<Sum>i<length bs. unat (bs ! i) * 256 ^ i)"
    by (simp add: sum_distrib_left mult.assoc mult.left_commute)
  finally show ?case using Cons.IH by simp
qed

lemma le_nat_bound: "le_nat bs < 256 ^ length bs"
proof (induction bs)
  case Nil
  then show ?case by simp
next
  case (Cons b bs)
  have "unat b < 256" using unsigned_less [of b] by simp
  moreover have "le_nat bs + 1 \<le> 256 ^ length bs" using Cons.IH by simp
  then have "256 * (le_nat bs + 1) \<le> 256 * 256 ^ length bs"
    by (rule mult_le_mono2)
  ultimately show ?case by simp
qed

lemma readBigUInt64LE_at:
  assumes "off + 8 \<le> length buf"
  shows "readBigUInt64LE buf off = Inr (u64_le_at buf off)"
proof -
  have len: "length (take 8 (drop off buf)) = 8" using assms by simp
  have "le_nat (take 8 (drop off buf))
        = (\<Sum>i<8. unat (take 8 (drop off buf) ! i) * 256 ^ i)"
    using le_nat_sum [of "take 8 (drop off buf)"] len by simp
  also have "\<dots> = (\<Sum>i<8. unat (buf ! (off + i)) * 256 ^ i)"
    using assms by (intro sum.cong) auto
  finally show ?thesis using assms by (simp add: readBigUInt64LE_def u64_le_at_def)
qed

text \<open>
  C3 (as amended). For every payload of at least 26 bytes the decoder succeeds, and it
  returns \<open>initPcAmount\<close> equal to the little-endian unsigned 64-bit integer at byte
  offsets [10,18) and \<open>initCoinAmount\<close> equal to the one at byte offsets [18,26): the
  two names are the other way round from the claim as written.
\<close>

theorem parseInit2_offsets:
  assumes "26 \<le> length buf"
  shows "parseInit2 buf =
           Inr \<lparr>initPcAmount = u64_le_at buf 10, initCoinAmount = u64_le_at buf 18\<rparr>"
proof -
  have "readBigUInt64LE buf 10 = Inr (u64_le_at buf 10)"
    using assms by (intro readBigUInt64LE_at) simp
  moreover have "readBigUInt64LE buf 18 = Inr (u64_le_at buf 18)"
    using assms by (intro readBigUInt64LE_at) simp
  ultimately show ?thesis by (simp add: parseInit2_def)
qed

theorem parseInit2_offsets_witness:
  "26 \<le> length payload_1_2 \<and>
   parseInit2 payload_1_2 =
     Inr \<lparr>initPcAmount = u64_le_at payload_1_2 10, initCoinAmount = u64_le_at payload_1_2 18\<rparr>"
proof -
  have h: "26 \<le> length payload_1_2" by (simp add: payload_1_2_def)
  show ?thesis using h parseInit2_offsets [OF h] by simp
qed

text \<open>
  C3 as written fails: on a 26-byte payload whose bytes [10,18) encode 1 and whose bytes
  [18,26) encode 2, the claim asks for \<open>initCoinAmount = 1\<close> and \<open>initPcAmount = 2\<close>; the
  decoder returns \<open>initPcAmount = 1\<close> and \<open>initCoinAmount = 2\<close>.
\<close>

theorem parseInit2_claimed_order_counterexample:
  "length payload_1_2 = 26 \<and> u64_le_at payload_1_2 10 = 1 \<and> u64_le_at payload_1_2 18 = 2 \<and>
   parseInit2 payload_1_2 = Inr \<lparr>initPcAmount = 1, initCoinAmount = 2\<rparr> \<and>
   parseInit2 payload_1_2 \<noteq>
     Inr \<lparr>initPcAmount = u64_le_at payload_1_2 18, initCoinAmount = u64_le_at payload_1_2 10\<rparr>"
  by (simp add: payload_1_2_def parseInit2_def readBigUInt64LE_def u64_le_at_def
      lessThan_nat_numeral lessThan_Suc nth_append nth_Cons')

subsection \<open>The error monad and BigInt division\<close>

lemma bind_err_Inr_iff: "bind_err m f = Inr y \<longleftrightarrow> (\<exists>x. m = Inr x \<and> f x = Inr y)"
  by (cases m) (simp_all add: bind_err_def)

lemma bind_err_Inr [simp]: "bind_err (Inr x) f = f x"
  by (simp add: bind_err_def)

lemma bigint_div_nonneg:
  assumes "0 \<le> a" and "0 < b"
  shows "bigint_div a b = Inr (a div b)"
proof (cases "a = 0")
  case True
  then show ?thesis using assms by (simp add: bigint_div_def)
next
  case False
  then have "sgn a = 1" and "sgn b = 1" using assms by simp_all
  then show ?thesis using assms by (simp add: bigint_div_def)
qed

lemma Khuman_floor:
  assumes "0 \<le> q" and "0 \<le> b"
  shows "Khuman q b qd bd = Inr ((q * b) div 10 ^ (qd + bd))"
  unfolding Khuman_def using assms by (intro bigint_div_nonneg) simp_all

lemma get_field_upd [simp]:
  "get_field (t(k \<mapsto> v)) k' = (if k' = k then v else get_field t k')"
  by (simp add: get_field_def)

lemma parseInit2_bounds:
  assumes "parseInit2 buf = Inr params"
  shows "initPcAmount params < 2 ^ 64 \<and> initCoinAmount params < 2 ^ 64"
proof -
  have "le_nat (take 8 (drop k buf)) < 2 ^ 64" for k
  proof -
    have "le_nat (take 8 (drop k buf)) < 256 ^ length (take 8 (drop k buf))"
      by (rule le_nat_bound)
    also have "\<dots> \<le> (256::nat) ^ 8"
      by (rule power_increasing) simp_all
    finally show ?thesis by simp
  qed
  then show ?thesis
    using assms
    by (auto simp: parseInit2_def readBigUInt64LE_def split: if_splits)
qed

subsection \<open>What each block writes\<close>

lemma pool_account_fields_SomeD:
  assumes "pool_account_fields env va t = Inr (Some (t1, pd))"
  shows "\<exists>amm poolBytes. new_PublicKey env (ammId va) = Inr amm
           \<and> getAccountInfo env amm = Inr (Some poolBytes)
           \<and> layoutDecode env poolBytes = Inr pd"
    and "k \<notin> {''withdrawQueue'', ''lpVault'', ''lpDecimals'', ''nonce'', ''openTime''}
           \<Longrightarrow> t1 k = t k"
  using assms
  by (auto simp: pool_account_fields_def bind_err_Inr_iff split: option.splits)

lemma serum_side_accounts_SomeD:
  assumes "serum_side_accounts env t = Inr (Some t2)"
  shows "\<exists>m d. new_PublicKey env (get_field t ''marketId'') = Inr m
           \<and> getAccountInfo env m = Inr (Some d) \<and> 341 \<le> length d
           \<and> t2 = t(''marketEventQueue'' \<mapsto> JStr (base58 env (subarray d 245 277)),
                    ''marketBids'' \<mapsto> JStr (base58 env (subarray d 277 309)),
                    ''marketAsks'' \<mapsto> JStr (base58 env (subarray d 309 341)))"
  using assms
  by (auto simp: serum_side_accounts_def bind_err_Inr_iff split: option.splits if_splits)

lemma economics_SomeD:
  assumes "economics env p t = Inr t'"
  shows "\<exists>bd qd k. t' ''baseDecimals'' = Some (JNum bd) \<and> t' ''quoteDecimals'' = Some (JNum qd)
           \<and> Khuman (initQuote p) (initBase p) qd bd = Inr k \<and> t' ''K'' = Some (JDec k)"
    and "k \<notin> {''baseDecimals'', ''quoteDecimals'', ''K'', ''V'', ''isWSOLSwap'', ''wrappedSOLAmount''}
           \<Longrightarrow> t' k = t k"
  using assms
  by (auto simp: economics_def bind_err_Inr_iff Let_def split: if_splits)

lemma swap_support_frame:
  assumes "swap_support env user t = Inr t'"
    and "k \<notin> {''tokenProgramId'', ''vaultOwner'', ''userBaseTokenAccount'',
               ''userQuoteTokenAccount'', ''userSolAddress''}"
  shows "t' k = t k"
  using assms
  by (auto simp: swap_support_def bind_err_Inr_iff Let_def)

lemma market_authority_frame:
  "k \<noteq> ''marketAuthority'' \<Longrightarrow> market_authority env t k = t k"
  by (simp add: market_authority_def split: sum.splits)

lemma metadata_frame:
  "k \<notin> {''lookupTableAccount'', ''routeType'', ''sdkVersion'', ''ammVersion'', ''createdAt'',
          ''signature''} \<Longrightarrow> metadata env sig t k = t k"
  by (simp add: metadata_def)

lemma sdk_fields_frame:
  "k \<notin> {''swapFeeNumerator'', ''swapFeeDenominator'', ''ownerTradeFeeNumerator'',
          ''ownerTradeFeeDenominator'', ''ownerWithdrawFeeNumerator'',
          ''ownerWithdrawFeeDenominator'', ''status'', ''state'', ''resetFlag'', ''minSize'',
          ''volMaxCutRatio'', ''pnlNumerator'', ''pnlDenominator'', ''depth'', ''coinDeposited'',
          ''pcDeposited'', ''systemDecimalsValue'', ''poolOpenTime''}
     \<Longrightarrow> sdk_fields env p pd t k = t k"
  by (simp add: sdk_fields_def)

subsection \<open>What a run that produced a record went through\<close>

lemma buildRecord_SomeD:
  assumes "buildRecord env user sig accounts ix = Inr (Some t)"
  obtains params t1 pd t2 t3 t4 where
    "parseInit2 (data ix) = Inr params"
    "pool_account_fields env (map_accounts accounts (accountKeyIndexes ix))
       (td_base env accounts (accountKeyIndexes ix) (map_accounts accounts (accountKeyIndexes ix))
          (canonicalize (raw_pair accounts (accountKeyIndexes ix) params))) = Inr (Some (t1, pd))"
    "serum_side_accounts env t1 = Inr (Some t2)"
    "economics env (canonicalize (raw_pair accounts (accountKeyIndexes ix) params)) t2 = Inr t3"
    "swap_support env user t3 = Inr t4"
    "t = metadata env sig (market_authority env
           (sdk_fields env (canonicalize (raw_pair accounts (accountKeyIndexes ix) params)) pd t4))"
  using assms
  by (auto simp: buildRecord_def bind_err_Inr_iff Let_def split: option.splits)

lemma scan_instructions_SomeD:
  assumes "scan_instructions env user sig accounts ixs = (res, docs)"
    and "(\<exists>r. res = Inr (Some r)) \<or> docs \<noteq> []"
  shows "\<exists>ix \<in> set ixs. program_of accounts ix = JStr (RAYDIUM_AMM env)
            \<and> processInstruction env user sig accounts ix = (res, docs)"
  using assms
  by (induction ixs) (auto split: if_splits)

lemma processInstruction_cases:
  assumes "processInstruction env user sig accounts ix = (res, docs)"
  shows "(docs = [] \<and> (\<forall>r. res \<noteq> Inr (Some r)))
       \<or> (\<exists>t insertedId. buildRecord env user sig accounts ix = Inr (Some t)
             \<and> insertOne env t = Inr insertedId
             \<and> res = Inr (Some (t(''tokenId'' \<mapsto> insertedId))) \<and> docs = [t])"
  using assms
  by (auto simp: processInstruction_def split: sum.splits option.splits)

lemma process_cases:
  assumes "processRaydiumLpTransaction env sig = (res, docs)"
  shows "(docs = [] \<and> (\<forall>r. res \<noteq> Inr (Some r)))
       \<or> (\<exists>user msg ix t insertedId.
             getTransaction env sig = Inr (Some msg)
             \<and> ix \<in> set (compiledInstructions msg)
             \<and> program_of (accountKeys msg) ix = JStr (RAYDIUM_AMM env)
             \<and> buildRecord env user sig (accountKeys msg) ix = Inr (Some t)
             \<and> insertOne env t = Inr insertedId
             \<and> res = Inr (Some (t(''tokenId'' \<mapsto> insertedId))) \<and> docs = [t])"
proof (cases "docs = [] \<and> (\<forall>r. res \<noteq> Inr (Some r))")
  case True
  then show ?thesis by simp
next
  case False
  then have ne: "(\<exists>r. res = Inr (Some r)) \<or> docs \<noteq> []" by auto
  from assms ne obtain user msg where
    tx: "getTransaction env sig = Inr (Some msg)" and
    sc: "scan_instructions env user sig (accountKeys msg) (compiledInstructions msg) = (res, docs)"
    by (auto simp: processRaydiumLpTransaction_def split: option.splits if_splits sum.splits)
  from scan_instructions_SomeD [OF sc ne] obtain ix where
    ix: "ix \<in> set (compiledInstructions msg)"
        "program_of (accountKeys msg) ix = JStr (RAYDIUM_AMM env)"
        "processInstruction env user sig (accountKeys msg) ix = (res, docs)"
    by blast
  from processInstruction_cases [OF ix(3)] False tx ix(1,2) show ?thesis by blast
qed

text \<open>A persisted document is the record one matching instruction built.\<close>

lemma persisted_is_built:
  assumes "processRaydiumLpTransaction env sig = (res, docs)" and "t \<in> set docs"
  shows "\<exists>user msg ix. getTransaction env sig = Inr (Some msg)
           \<and> ix \<in> set (compiledInstructions msg)
           \<and> buildRecord env user sig (accountKeys msg) ix = Inr (Some t)
           \<and> docs = [t]"
proof -
  from assms(2) have "docs \<noteq> []" by auto
  with process_cases [OF assms(1)] obtain user msg ix t' where
    *: "getTransaction env sig = Inr (Some msg)" "ix \<in> set (compiledInstructions msg)"
       "buildRecord env user sig (accountKeys msg) ix = Inr (Some t')" "docs = [t']"
    by blast
  from *(4) assms(2) have "t' = t" by simp
  with * show ?thesis by blast
qed


subsection \<open>Fields written once\<close>

lemma metadata_keeps:
  "k \<in> base_keys \<Longrightarrow> metadata env sig t k = t k"
  unfolding base_keys_def by (rule metadata_frame) auto

lemma market_authority_keeps:
  "k \<in> base_keys \<Longrightarrow> market_authority env t k = t k"
  unfolding base_keys_def by (rule market_authority_frame) auto

lemma sdk_fields_keeps:
  "k \<in> base_keys \<Longrightarrow> sdk_fields env p pd t k = t k"
  unfolding base_keys_def by (rule sdk_fields_frame) auto

lemma swap_support_keeps:
  "swap_support env user t = Inr t' \<Longrightarrow> k \<in> base_keys \<Longrightarrow> t' k = t k"
  unfolding base_keys_def by (erule swap_support_frame) auto

lemma economics_keeps:
  "economics env p t = Inr t' \<Longrightarrow> k \<in> base_keys \<Longrightarrow> t' k = t k"
  unfolding base_keys_def by (erule economics_SomeD(2)) auto

lemma serum_side_accounts_keeps:
  assumes "serum_side_accounts env t = Inr (Some t')" and "k \<in> base_keys"
  shows "t' k = t k"
proof -
  have "k \<noteq> ''marketEventQueue''" "k \<noteq> ''marketBids''" "k \<noteq> ''marketAsks''"
    using assms(2) unfolding base_keys_def by auto
  with serum_side_accounts_SomeD [OF assms(1)] show ?thesis by auto
qed

lemma pool_account_fields_keeps:
  "pool_account_fields env va t = Inr (Some (t', pd)) \<Longrightarrow> k \<in> base_keys \<Longrightarrow> t' k = t k"
  unfolding base_keys_def by (erule pool_account_fields_SomeD(2)) auto

lemma buildRecord_base:
  assumes "buildRecord env user sig accounts ix = Inr (Some t)"
    and "parseInit2 (data ix) = Inr params"
    and "k \<in> base_keys"
  shows "t k = td_base env accounts (accountKeyIndexes ix)
                 (map_accounts accounts (accountKeyIndexes ix))
                 (canonicalize (raw_pair accounts (accountKeyIndexes ix) params)) k"
proof -
  from assms(1) obtain params' t1 pd t2 t3 t4 where
    s: "parseInit2 (data ix) = Inr params'"
       "pool_account_fields env (map_accounts accounts (accountKeyIndexes ix))
          (td_base env accounts (accountKeyIndexes ix) (map_accounts accounts (accountKeyIndexes ix))
            (canonicalize (raw_pair accounts (accountKeyIndexes ix) params'))) = Inr (Some (t1, pd))"
       "serum_side_accounts env t1 = Inr (Some t2)"
       "economics env (canonicalize (raw_pair accounts (accountKeyIndexes ix) params')) t2 = Inr t3"
       "swap_support env user t3 = Inr t4"
       "t = metadata env sig (market_authority env
             (sdk_fields env (canonicalize (raw_pair accounts (accountKeyIndexes ix) params')) pd t4))"
    by (rule buildRecord_SomeD)
  from s(1) assms(2) have p: "params' = params" by simp
  have "t k = t4 k"
    unfolding s(6)
    by (simp only: metadata_keeps [OF assms(3)] market_authority_keeps [OF assms(3)]
        sdk_fields_keeps [OF assms(3)])
  also have "\<dots> = t3 k" by (rule swap_support_keeps [OF s(5) assms(3)])
  also have "\<dots> = t2 k" by (rule economics_keeps [OF s(4) assms(3)])
  also have "\<dots> = t1 k" by (rule serum_side_accounts_keeps [OF s(3) assms(3)])
  also have "\<dots> = td_base env accounts (accountKeyIndexes ix)
                 (map_accounts accounts (accountKeyIndexes ix))
                 (canonicalize (raw_pair accounts (accountKeyIndexes ix) params')) k"
    by (rule pool_account_fields_keeps [OF s(2) assms(3)])
  finally show ?thesis unfolding p .
qed

lemma buildRecord_late:
  assumes "buildRecord env user sig accounts ix = Inr (Some t)"
    and "parseInit2 (data ix) = Inr params"
  shows "\<exists>amm poolBytes pd m d bd qd k.
           t ''ammId'' = Some (JStr amm)
         \<and> getAccountInfo env amm = Inr (Some poolBytes)
         \<and> layoutDecode env poolBytes = Inr pd
         \<and> t ''marketId'' = Some (JStr m)
         \<and> getAccountInfo env m = Inr (Some d) \<and> 341 \<le> length d
         \<and> t ''marketEventQueue'' = Some (JStr (base58 env (subarray d 245 277)))
         \<and> t ''marketBids'' = Some (JStr (base58 env (subarray d 277 309)))
         \<and> t ''marketAsks'' = Some (JStr (base58 env (subarray d 309 341)))
         \<and> t ''baseDecimals'' = Some (JNum bd) \<and> t ''quoteDecimals'' = Some (JNum qd)
         \<and> Khuman (initQuote (canonicalize (raw_pair accounts (accountKeyIndexes ix) params)))
               (initBase (canonicalize (raw_pair accounts (accountKeyIndexes ix) params))) qd bd
             = Inr k
         \<and> t ''K'' = Some (JDec k)
         \<and> t ''swapFeeNumerator'' = Some (or_default (Number_of (swapFeeNumerator pd)) 25)
         \<and> t ''ownerTradeFeeNumerator''
             = Some (or_default (Number_of (ownerTradeFeeNumerator pd)) 5)
         \<and> t ''status'' = Some (or_default (Number_of (status pd)) 6)
         \<and> t ''state'' = Some (or_default (Number_of (state pd)) 1)"
proof -
  let ?idx = "accountKeyIndexes ix"
  let ?va = "map_accounts accounts ?idx"
  let ?p = "canonicalize (raw_pair accounts ?idx params)"
  let ?t0 = "td_base env accounts ?idx ?va ?p"
  from assms(1) obtain params' t1 pd t2 t3 t4 where
    s: "parseInit2 (data ix) = Inr params'"
       "pool_account_fields env (map_accounts accounts (accountKeyIndexes ix))
          (td_base env accounts (accountKeyIndexes ix) (map_accounts accounts (accountKeyIndexes ix))
            (canonicalize (raw_pair accounts (accountKeyIndexes ix) params'))) = Inr (Some (t1, pd))"
       "serum_side_accounts env t1 = Inr (Some t2)"
       "economics env (canonicalize (raw_pair accounts (accountKeyIndexes ix) params')) t2 = Inr t3"
       "swap_support env user t3 = Inr t4"
       "t = metadata env sig (market_authority env
             (sdk_fields env (canonicalize (raw_pair accounts (accountKeyIndexes ix) params')) pd t4))"
    by (rule buildRecord_SomeD)
  from s(1) assms(2) have p: "params' = params" by simp
  note s = s [unfolded p]
  have amm0: "t ''ammId'' = ?t0 ''ammId''" and mk0: "t ''marketId'' = ?t0 ''marketId''"
    by (rule buildRecord_base [OF assms], simp add: base_keys_def)+
  from pool_account_fields_SomeD(1) [OF s(2)] obtain amm poolBytes where
    pool: "new_PublicKey env (ammId ?va) = Inr amm" "getAccountInfo env amm = Inr (Some poolBytes)"
          "layoutDecode env poolBytes = Inr pd"
    by blast
  from pool(1) have amm: "t ''ammId'' = Some (JStr amm)"
    unfolding amm0 by (auto simp: new_PublicKey_def td_base_def split: jsval.splits if_splits)
  from serum_side_accounts_SomeD [OF s(3)] obtain m d where
    mk: "new_PublicKey env (get_field t1 ''marketId'') = Inr m"
        "getAccountInfo env m = Inr (Some d)" "341 \<le> length d"
        "t2 = t1(''marketEventQueue'' \<mapsto> JStr (base58 env (subarray d 245 277)),
                 ''marketBids'' \<mapsto> JStr (base58 env (subarray d 277 309)),
                 ''marketAsks'' \<mapsto> JStr (base58 env (subarray d 309 341)))"
    by blast
  have t0m: "?t0 ''marketId'' = Some (account_at accounts ?idx 16)"
    by (simp add: td_base_def)
  have "t1 ''marketId'' = ?t0 ''marketId''"
    by (rule pool_account_fields_keeps [OF s(2)]) (simp add: base_keys_def)
  with t0m have "get_field t1 ''marketId'' = account_at accounts ?idx 16"
    by (simp add: get_field_def)
  with mk(1) have "account_at accounts ?idx 16 = JStr m"
    by (auto simp: new_PublicKey_def split: jsval.splits if_splits)
  with mk0 t0m have market: "t ''marketId'' = Some (JStr m)" by simp
  have late: "t k = t4 k"
    if "k \<in> {''marketEventQueue'', ''marketBids'', ''marketAsks'', ''baseDecimals'',
                ''quoteDecimals'', ''K''}" for k
    unfolding s(6) using that
    by (auto simp: metadata_frame market_authority_frame sdk_fields_frame)
  have t43: "t4 k = t3 k"
    if "k \<in> {''marketEventQueue'', ''marketBids'', ''marketAsks'', ''baseDecimals'',
                ''quoteDecimals'', ''K''}" for k
    using that by (intro swap_support_frame [OF s(5)]) auto
  have t32: "t3 k = t2 k" if "k \<in> {''marketEventQueue'', ''marketBids'', ''marketAsks''}" for k
    using that by (intro economics_SomeD(2) [OF s(4)]) auto
  have side: "t ''marketEventQueue'' = Some (JStr (base58 env (subarray d 245 277)))"
             "t ''marketBids'' = Some (JStr (base58 env (subarray d 277 309)))"
             "t ''marketAsks'' = Some (JStr (base58 env (subarray d 309 341)))"
    by (simp_all add: late t43 t32 mk(4))
  from economics_SomeD(1) [OF s(4)] obtain bd qd k where
    ec: "t3 ''baseDecimals'' = Some (JNum bd)" "t3 ''quoteDecimals'' = Some (JNum qd)"
        "Khuman (initQuote ?p) (initBase ?p) qd bd = Inr k" "t3 ''K'' = Some (JDec k)"
    by blast
  have econ: "t ''baseDecimals'' = Some (JNum bd)" "t ''quoteDecimals'' = Some (JNum qd)"
             "t ''K'' = Some (JDec k)"
    by (simp_all add: late t43 ec)
  have sdk: "t ''swapFeeNumerator'' = Some (or_default (Number_of (swapFeeNumerator pd)) 25)"
            "t ''ownerTradeFeeNumerator''
               = Some (or_default (Number_of (ownerTradeFeeNumerator pd)) 5)"
            "t ''status'' = Some (or_default (Number_of (status pd)) 6)"
            "t ''state'' = Some (or_default (Number_of (state pd)) 1)"
    unfolding s(6)
    by (simp_all add: metadata_frame market_authority_frame) (simp_all add: sdk_fields_def)
  from amm pool(2,3) market mk(2,3) side econ ec(3) sdk show ?thesis by blast
qed


subsection \<open>When the loop body produces a record\<close>

lemma get_field_cong: "t' k = t k \<Longrightarrow> get_field t' k = get_field t k"
  by (simp add: get_field_def)

lemma td_base_fields:
  "get_field (td_base env accounts idx va p) ''marketId'' = account_at accounts idx 16"
  "get_field (td_base env accounts idx va p) ''marketProgramId'' = account_at accounts idx 15"
  "get_field (td_base env accounts idx va p) ''baseMint'' = baseMint p"
  "get_field (td_base env accounts idx va p) ''quoteMint'' = quoteMint p"
  by (simp_all add: td_base_def get_field_def)

lemma map_accounts_fixed:
  "ammId (map_accounts accounts idx) = account_at accounts idx 4"
  "lpMint (map_accounts accounts idx) = account_at accounts idx 7"
  by (simp_all add: map_accounts_def)

lemma canonicalize_mints:
  "(baseMint (canonicalize p) = baseMint p \<and> quoteMint (canonicalize p) = quoteMint p)
   \<or> (baseMint (canonicalize p) = quoteMint p \<and> quoteMint (canonicalize p) = baseMint p)"
  by (simp add: canonicalize_def swap_pair_def)

lemma economics_ok:
  assumes "\<And>s. validKey env s" and "\<And>k. \<exists>n. getTokenSupply env k = Inr n"
    and "baseMint p = JStr bm" and "quoteMint p = JStr qm"
  shows "\<exists>t'. economics env p t = Inr t'"
proof -
  obtain bd where bd: "getTokenSupply env bm = Inr bd" using assms(2) by blast
  obtain qd where qd: "getTokenSupply env qm = Inr qd" using assms(2) by blast
  show ?thesis
    using assms(1,3,4) bd qd
    by (simp add: economics_def new_PublicKey_def Khuman_def bigint_div_def Let_def)
qed

lemma swap_support_ok:
  assumes "\<And>s. validKey env s"
    and "\<And>seeds program. \<exists>a. findProgramAddressSync env seeds program = Inr a"
    and "get_field t ''marketId'' = JStr m" and "get_field t ''marketProgramId'' = JStr mp"
    and "get_field t ''baseMint'' = JStr bm" and "get_field t ''quoteMint'' = JStr qm"
  shows "\<exists>t'. swap_support env user t = Inr t'"
proof -
  obtain vo where vo: "findProgramAddressSync env [m] mp = Inr vo" using assms(2) by blast
  obtain ub where ub: "getAssociatedTokenAddress env user bm = Inr ub"
    unfolding getAssociatedTokenAddress_def using assms(2) by blast
  obtain uq where uq: "getAssociatedTokenAddress env user qm = Inr uq"
    unfolding getAssociatedTokenAddress_def using assms(2) by blast
  show ?thesis
    using assms(1,3-6) vo ub uq
    by (simp add: swap_support_def new_PublicKey_def Let_def)
qed

lemma pool_account_fields_ok:
  assumes "\<And>s. validKey env s" and "\<And>k. \<exists>n. getTokenSupply env k = Inr n"
    and "ammId va = JStr amm" and "lpMint va = JStr lp"
    and "getAccountInfo env amm = Inr (Some poolBytes)" and "layoutDecode env poolBytes = Inr pd"
    and "withdrawQueue pd = Some wq" and "lpVault pd = Some lv"
  shows "\<exists>t1. pool_account_fields env va t = Inr (Some (t1, pd))"
proof -
  obtain n where n: "getTokenSupply env lp = Inr n" using assms(2) by blast
  show ?thesis
    using assms(1,3-8) n
    by (simp add: pool_account_fields_def new_PublicKey_def key_field_def)
qed

lemma serum_side_accounts_ok:
  assumes "\<And>s. validKey env s" and "get_field t ''marketId'' = JStr mk"
    and "getAccountInfo env mk = Inr (Some d)" and "341 \<le> length d"
  shows "\<exists>t2. serum_side_accounts env t = Inr (Some t2)"
  using assms by (simp add: serum_side_accounts_def new_PublicKey_def)

text \<open>
  The loop body produces a record when every key is well formed, the instruction names
  its accounts, the payload parses, the pool account decodes with its two address fields,
  the market account has at least 341 bytes, and the ledger and the address derivation
  answer.
\<close>

lemma buildRecord_succeeds:
  assumes valid: "\<And>s. validKey env s"
    and parse: "parseInit2 (data ix) = Inr params"
    and accts: "account_at accounts (accountKeyIndexes ix) 4 = JStr amm"
               "account_at accounts (accountKeyIndexes ix) 7 = JStr lp"
               "account_at accounts (accountKeyIndexes ix) 8 = JStr m8"
               "account_at accounts (accountKeyIndexes ix) 9 = JStr m9"
               "account_at accounts (accountKeyIndexes ix) 15 = JStr mp"
               "account_at accounts (accountKeyIndexes ix) 16 = JStr mk"
    and pool: "getAccountInfo env amm = Inr (Some poolBytes)"
              "layoutDecode env poolBytes = Inr pd"
              "withdrawQueue pd = Some wq" "lpVault pd = Some lv"
    and toks: "\<And>k. \<exists>n. getTokenSupply env k = Inr n"
    and market: "getAccountInfo env mk = Inr (Some d)" "341 \<le> length d"
    and pda: "\<And>seeds program. \<exists>a. findProgramAddressSync env seeds program = Inr a"
  shows "\<exists>t. buildRecord env user sig accounts ix = Inr (Some t)"
proof -
  let ?idx = "accountKeyIndexes ix"
  let ?va = "map_accounts accounts ?idx"
  let ?raw = "raw_pair accounts ?idx params"
  let ?p = "canonicalize ?raw"
  let ?t0 = "td_base env accounts ?idx ?va ?p"
  have raw: "baseMint ?raw = JStr m8" "quoteMint ?raw = JStr m9"
    by (simp_all add: raw_pair_def accts)
  from canonicalize_mints [of ?raw] raw obtain bm qm where
    mints: "baseMint ?p = JStr bm" "quoteMint ?p = JStr qm"
    by auto
  have "\<exists>t1. pool_account_fields env ?va ?t0 = Inr (Some (t1, pd))"
    by (rule pool_account_fields_ok [OF valid toks _ _ pool])
       (simp_all add: map_accounts_fixed accts)
  then obtain t1 where t1: "pool_account_fields env ?va ?t0 = Inr (Some (t1, pd))" by blast
  have k1: "get_field t1 k = get_field ?t0 k" if "k \<in> base_keys" for k
    by (rule get_field_cong, rule pool_account_fields_keeps [OF t1 that])
  have m1: "get_field t1 ''marketId'' = JStr mk"
    by (simp add: k1 base_keys_def td_base_fields accts)
  obtain t2 where t2: "serum_side_accounts env t1 = Inr (Some t2)"
    using serum_side_accounts_ok [OF valid m1 market] by blast
  have k2: "get_field t2 k = get_field ?t0 k" if "k \<in> base_keys" for k
    using serum_side_accounts_keeps [OF t2 that] k1 [OF that] by (simp add: get_field_def)
  obtain t3 where t3: "economics env ?p t2 = Inr t3"
    using economics_ok [OF valid toks mints] by blast
  have k3: "get_field t3 k = get_field ?t0 k" if "k \<in> base_keys" for k
    using economics_keeps [OF t3 that] k2 [OF that] by (simp add: get_field_def)
  have "\<exists>t4. swap_support env user t3 = Inr t4"
    by (rule swap_support_ok [OF valid pda, where m = mk and mp = mp and bm = bm and qm = qm])
       (simp_all add: k3 base_keys_def td_base_fields accts mints)
  then obtain t4 where t4: "swap_support env user t3 = Inr t4" by blast
  show ?thesis
    by (simp add: buildRecord_def Let_def parse t1 t2 t3 t4)
qed

lemma buildRecord_params:
  assumes "buildRecord env user sig accounts ix = Inr (Some t)"
  shows "\<exists>params. parseInit2 (data ix) = Inr params"
  using assms by (rule buildRecord_SomeD) blast

subsection \<open>The concrete run\<close>

lemma env0_sel [simp]:
  "USER_SOLANA_ADDRESS env0 = Some ''userWallet''"
  "RAYDIUM_AMM env0 = ''raydiumAmm''"
  "validKey env0 s"
  "getTransaction env0 sig = Inr (Some \<lparr>accountKeys = accounts0, compiledInstructions = [ix0]\<rparr>)"
  "getAccountInfo env0 k = (if k = ''market'' then Inr (Some (replicate 341 0)) else Inr (Some []))"
  "getTokenSupply env0 k = Inr 9"
  "layoutDecode env0 b = Inr pool0"
  "findProgramAddressSync env0 seeds program = Inr (concat seeds @ program)"
  "insertOne env0 t = Inr (JStr ''id0'')"
  by (simp_all add: env0_def)

lemma env_short_market_sel [simp]:
  "validKey env_short_market s"
  "getAccountInfo env_short_market k
     = (if k = ''market'' then Inr (Some (replicate 340 0)) else Inr (Some []))"
  "getTokenSupply env_short_market k = Inr 9"
  "layoutDecode env_short_market b = Inr pool0"
  by (simp_all add: env_short_market_def env0_def)

lemma parseInit2_payload0:
  "parseInit2 (data ix0) = Inr \<lparr>initPcAmount = 50000000000, initCoinAmount = 1000000000\<rparr>"
  by (simp add: parseInit2_def readBigUInt64LE_def payload0_def ix0_def)

lemma accounts0_at:
  "account_at accounts0 (accountKeyIndexes ix0) 4 = JStr ''pool''"
  "account_at accounts0 (accountKeyIndexes ix0) 7 = JStr ''lpMint''"
  "account_at accounts0 (accountKeyIndexes ix0) 8 = JStr ''TOKEN''"
  "account_at accounts0 (accountKeyIndexes ix0) 9 = JStr WSOL_MINT"
  "account_at accounts0 (accountKeyIndexes ix0) 15 = JStr ''marketProgram''"
  "account_at accounts0 (accountKeyIndexes ix0) 16 = JStr ''market''"
  by (simp_all add: account_at_def ix0_def accounts0_def)

lemma accounts_flipped_at:
  "account_at accounts_flipped (accountKeyIndexes ix0) 4 = JStr ''pool''"
  "account_at accounts_flipped (accountKeyIndexes ix0) 7 = JStr ''lpMint''"
  "account_at accounts_flipped (accountKeyIndexes ix0) 8 = JStr WSOL_MINT"
  "account_at accounts_flipped (accountKeyIndexes ix0) 9 = JStr ''TOKEN''"
  "account_at accounts_flipped (accountKeyIndexes ix0) 10 = JStr ''wsolVault''"
  "account_at accounts_flipped (accountKeyIndexes ix0) 11 = JStr ''tokenVault''"
  "account_at accounts_flipped (accountKeyIndexes ix0) 15 = JStr ''marketProgram''"
  "account_at accounts_flipped (accountKeyIndexes ix0) 16 = JStr ''market''"
  by (simp_all add: account_at_def ix0_def accounts_flipped_def)

lemma buildRecord0: "\<exists>t. buildRecord env0 user sig accounts0 ix0 = Inr (Some t)"
  by (rule buildRecord_succeeds [OF _ parseInit2_payload0 accounts0_at,
        where poolBytes = "[]" and pd = pool0 and d = "replicate 341 0"])
     (simp_all add: pool0_def)

lemma buildRecord_flipped: "\<exists>t. buildRecord env0 user sig accounts_flipped ix0 = Inr (Some t)"
  by (rule buildRecord_succeeds [OF _ parseInit2_payload0 accounts_flipped_at(1-4,7,8),
        where poolBytes = "[]" and pd = pool0 and d = "replicate 341 0"])
     (simp_all add: pool0_def)

lemma processRaydiumLpTransaction0:
  "\<exists>t. processRaydiumLpTransaction env0 sig = (Inr (Some (t(''tokenId'' \<mapsto> JStr ''id0''))), [t])"
proof -
  obtain t where "buildRecord env0 ''userWallet'' sig accounts0 ix0 = Inr (Some t)"
    using buildRecord0 by blast
  then have "processRaydiumLpTransaction env0 sig
               = (Inr (Some (t(''tokenId'' \<mapsto> JStr ''id0''))), [t])"
    by (simp add: processRaydiumLpTransaction_def new_PublicKey_def processInstruction_def
        program_of_def ix0_def accounts0_def)
  then show ?thesis by blast
qed


subsection \<open>The constant-product invariant\<close>

lemma parseInit2_InrD:
  assumes "parseInit2 buf = Inr params"
  shows "initPcAmount params = u64_le_at buf 10 \<and> initCoinAmount params = u64_le_at buf 18"
proof -
  from assms have len: "26 \<le> length buf"
    by (auto simp: parseInit2_def readBigUInt64LE_def split: if_splits sum.splits)
  have "readBigUInt64LE buf 10 = Inr (u64_le_at buf 10)"
    using len by (intro readBigUInt64LE_at) simp
  moreover have "readBigUInt64LE buf 18 = Inr (u64_le_at buf 18)"
    using len by (intro readBigUInt64LE_at) simp
  ultimately show ?thesis using assms by (auto simp: parseInit2_def)
qed

lemma canonicalize_amounts_of_payload:
  assumes "parseInit2 buf = Inr params"
  shows "\<exists>q b. q < 2 ^ 64 \<and> b < 2 ^ 64
           \<and> ((q = u64_le_at buf 10 \<and> b = u64_le_at buf 18)
                \<or> (q = u64_le_at buf 18 \<and> b = u64_le_at buf 10))
           \<and> initQuote (canonicalize (raw_pair accounts idx params)) = int q
           \<and> initBase (canonicalize (raw_pair accounts idx params)) = int b"
  using parseInit2_bounds [OF assms] parseInit2_InrD [OF assms]
  by (auto simp: canonicalize_def swap_pair_def raw_pair_def)

lemma economics_decimals:
  assumes "economics env p t = Inr t'"
  shows "\<exists>bk qk bd qd k. baseMint p = JStr bk \<and> quoteMint p = JStr qk
           \<and> getTokenSupply env bk = Inr bd \<and> getTokenSupply env qk = Inr qd
           \<and> t' ''baseDecimals'' = Some (JNum bd) \<and> t' ''quoteDecimals'' = Some (JNum qd)
           \<and> Khuman (initQuote p) (initBase p) qd bd = Inr k \<and> t' ''K'' = Some (JDec k)"
  using assms
  by (auto simp: economics_def bind_err_Inr_iff new_PublicKey_def Let_def
      split: if_splits jsval.splits)

lemma buildRecord_economics:
  assumes "buildRecord env user sig accounts ix = Inr (Some t)"
    and "parseInit2 (data ix) = Inr params"
    and "p = canonicalize (raw_pair accounts (accountKeyIndexes ix) params)"
  shows "\<exists>bk qk bd qd k. baseMint p = JStr bk \<and> quoteMint p = JStr qk
           \<and> getTokenSupply env bk = Inr bd \<and> getTokenSupply env qk = Inr qd
           \<and> t ''baseDecimals'' = Some (JNum bd) \<and> t ''quoteDecimals'' = Some (JNum qd)
           \<and> Khuman (initQuote p) (initBase p) qd bd = Inr k \<and> t ''K'' = Some (JDec k)"
proof -
  from assms(1) obtain params' t1 pd t2 t3 t4 where
    s: "parseInit2 (data ix) = Inr params'"
       "economics env (canonicalize (raw_pair accounts (accountKeyIndexes ix) params')) t2 = Inr t3"
       "swap_support env user t3 = Inr t4"
       "t = metadata env sig (market_authority env
             (sdk_fields env (canonicalize (raw_pair accounts (accountKeyIndexes ix) params')) pd t4))"
    by (rule buildRecord_SomeD)
  from s(1) assms(2) have p: "params' = params" by simp
  note s = s [unfolded p, folded assms(3)]
  have late: "t k = t3 k" if "k \<in> {''baseDecimals'', ''quoteDecimals'', ''K''}" for k
  proof -
    have "t k = t4 k"
      unfolding s(4) using that
      by (auto simp: metadata_frame market_authority_frame sdk_fields_frame)
    also have "\<dots> = t3 k"
      using that by (intro swap_support_frame [OF s(3)]) auto
    finally show ?thesis .
  qed
  from economics_decimals [OF s(2)] show ?thesis by (simp add: late)
qed

text \<open>
  C5. Whatever record the pipeline persists, it was built from an instruction of the
  fetched transaction, and its \<open>K\<close> is the decimal string of
  \<open>floor ((q * b) / 10 ^ (qd + bd))\<close>, where \<open>q\<close> and \<open>b\<close> are the two unsigned 64-bit
  integers read at offsets 10 and 18 of that instruction's payload (in one order or the
  other, as the record's \<open>initPcAmount\<close> and \<open>initCoinAmount\<close>), and \<open>qd\<close> and \<open>bd\<close> are
  the decimals that the ledger's \<^verbatim>\<open>getTokenSupply\<close> reports for the record's \<open>quoteMint\<close>
  and \<open>baseMint\<close>. The quotient is computed on BigInts (here \<open>int\<close>), whose truncating
  division is the floor on these non-negative operands; no bound on the decimals is
  needed.
\<close>

theorem persisted_K_is_floor:
  assumes "processRaydiumLpTransaction env sig = (res, docs)" and "t \<in> set docs"
  shows "\<exists>(msg :: message) ix q b qm bm qd bd.
             getTransaction env sig = Inr (Some msg) \<and> ix \<in> set (compiledInstructions msg)
           \<and> ((q = u64_le_at (data ix) 10 \<and> b = u64_le_at (data ix) 18)
                \<or> (q = u64_le_at (data ix) 18 \<and> b = u64_le_at (data ix) 10))
           \<and> q < 2 ^ 64 \<and> b < 2 ^ 64
           \<and> t ''initPcAmount'' = Some (JDec (int q))
           \<and> t ''initCoinAmount'' = Some (JDec (int b))
           \<and> t ''quoteMint'' = Some (JStr qm) \<and> t ''baseMint'' = Some (JStr bm)
           \<and> getTokenSupply env qm = Inr qd \<and> getTokenSupply env bm = Inr bd
           \<and> t ''quoteDecimals'' = Some (JNum qd)
           \<and> t ''baseDecimals'' = Some (JNum bd)
           \<and> t ''K'' = Some (JDec (int ((q * b) div 10 ^ (qd + bd))))"
proof -
  from persisted_is_built [OF assms] obtain user and msg :: message and ix where
    m: "getTransaction env sig = Inr (Some msg)" "ix \<in> set (compiledInstructions msg)" and
    b: "buildRecord env user sig (accountKeys msg) ix = Inr (Some t)"
    by blast
  from buildRecord_params [OF b] obtain params where
    p: "parseInit2 (data ix) = Inr params"
    by blast
  define p' where "p' = canonicalize (raw_pair (accountKeys msg) (accountKeyIndexes ix) params)"
  from canonicalize_amounts_of_payload [OF p] obtain q b' where
    qb: "q < 2 ^ 64" "b' < 2 ^ 64"
        "(q = u64_le_at (data ix) 10 \<and> b' = u64_le_at (data ix) 18)
           \<or> (q = u64_le_at (data ix) 18 \<and> b' = u64_le_at (data ix) 10)"
        "initQuote p' = int q" "initBase p' = int b'"
    unfolding p'_def by blast
  from buildRecord_economics [OF b p p'_def] obtain bm qm bd qd k where
    e: "baseMint p' = JStr bm" "quoteMint p' = JStr qm"
       "getTokenSupply env bm = Inr bd" "getTokenSupply env qm = Inr qd"
       "t ''baseDecimals'' = Some (JNum bd)" "t ''quoteDecimals'' = Some (JNum qd)"
       "Khuman (initQuote p') (initBase p') qd bd = Inr k" "t ''K'' = Some (JDec k)"
    by blast
  have "Khuman (int q) (int b') qd bd = Inr ((int q * int b') div 10 ^ (qd + bd))"
    by (rule Khuman_floor) simp_all
  with e(7) qb(4,5) have "k = (int q * int b') div 10 ^ (qd + bd)" by simp
  also have "\<dots> = int ((q * b') div 10 ^ (qd + bd))" by (simp add: zdiv_int)
  finally have k: "t ''K'' = Some (JDec (int ((q * b') div 10 ^ (qd + bd))))"
    using e(8) by simp
  have base: "t ''initPcAmount'' = Some (JDec (int q))"
             "t ''initCoinAmount'' = Some (JDec (int b'))"
             "t ''quoteMint'' = Some (JStr qm)" "t ''baseMint'' = Some (JStr bm)"
    by (subst buildRecord_base [OF b p],
        simp_all add: base_keys_def td_base_def p'_def [symmetric] qb(4,5) e(1,2))+
  from m qb(1,2,3) base e(3,4,5,6) k show ?thesis by blast
qed

theorem persisted_K_is_floor_witness:
  "\<exists>t. snd (processRaydiumLpTransaction env0 ''sig'') = [t]
       \<and> u64_le_at payload0 10 = 50000000000 \<and> u64_le_at payload0 18 = 1000000000
       \<and> t ''initPcAmount'' = Some (JDec 50000000000)
       \<and> t ''initCoinAmount'' = Some (JDec 1000000000)
       \<and> t ''quoteDecimals'' = Some (JNum 9) \<and> t ''baseDecimals'' = Some (JNum 9)
       \<and> t ''K'' = Some (JDec 50)"
proof -
  obtain t where
    run: "processRaydiumLpTransaction env0 ''sig''
            = (Inr (Some (t(''tokenId'' \<mapsto> JStr ''id0''))), [t])"
    using processRaydiumLpTransaction0 by blast
  have mem: "t \<in> set [t]" by simp
  have pl: "u64_le_at payload0 10 = 50000000000" "u64_le_at payload0 18 = 1000000000"
    using parseInit2_InrD [OF parseInit2_payload0] by (simp_all add: ix0_def)
  from persisted_K_is_floor [OF run mem] obtain msg :: message and ix q b qm bm qd bd where
    f: "getTransaction env0 ''sig'' = Inr (Some msg)" "ix \<in> set (compiledInstructions msg)"
       "(q = u64_le_at (data ix) 10 \<and> b = u64_le_at (data ix) 18)
          \<or> (q = u64_le_at (data ix) 18 \<and> b = u64_le_at (data ix) 10)"
       "t ''initPcAmount'' = Some (JDec (int q))" "t ''initCoinAmount'' = Some (JDec (int b))"
       "getTokenSupply env0 qm = Inr qd" "getTokenSupply env0 bm = Inr bd"
       "t ''quoteDecimals'' = Some (JNum qd)" "t ''baseDecimals'' = Some (JNum bd)"
       "t ''K'' = Some (JDec (int ((q * b) div 10 ^ (qd + bd))))"
    by blast
  from f(1,2) have ix: "data ix = payload0" by (auto simp: ix0_def)
  from f(6,7) have d: "qd = 9" "bd = 9" by simp_all
  from f(3) have prod: "q * b = 50000000000 * 1000000000"
    unfolding ix pl by auto
  from persisted_is_built [OF run mem] obtain user ix' where
    b: "buildRecord env0 user ''sig'' accounts0 ix' = Inr (Some t)" and "ix' \<in> set [ix0]"
    by auto
  then have b0: "buildRecord env0 user ''sig'' accounts0 ix0 = Inr (Some t)" by simp
  have pc: "t ''initPcAmount'' = Some (JDec 50000000000)"
    by (subst buildRecord_base [OF b0 parseInit2_payload0])
       (simp_all add: base_keys_def td_base_def canonicalize_def raw_pair_def accounts0_at
          WSOL_MINT_def)
  have coin: "t ''initCoinAmount'' = Some (JDec 1000000000)"
    by (subst buildRecord_base [OF b0 parseInit2_payload0])
       (simp_all add: base_keys_def td_base_def canonicalize_def raw_pair_def accounts0_at
          WSOL_MINT_def)
  from f(10) have "t ''K'' = Some (JDec 50)"
    unfolding prod d by simp
  with run pl pc coin f(8,9) d show ?thesis by simp
qed

subsection \<open>Defaults for the descriptive pool fields\<close>

lemma buildRecord_sdk:
  assumes "buildRecord env user sig accounts ix = Inr (Some t)"
    and "parseInit2 (data ix) = Inr params"
  shows "\<exists>amm poolBytes pd.
           t ''ammId'' = Some (JStr amm)
         \<and> getAccountInfo env amm = Inr (Some poolBytes)
         \<and> layoutDecode env poolBytes = Inr pd
         \<and> (\<forall>k \<in> {''swapFeeNumerator'', ''swapFeeDenominator'', ''ownerTradeFeeNumerator'',
                    ''ownerTradeFeeDenominator'', ''ownerWithdrawFeeNumerator'',
                    ''ownerWithdrawFeeDenominator'', ''status'', ''state'', ''resetFlag'',
                    ''minSize'', ''volMaxCutRatio'', ''pnlNumerator'', ''pnlDenominator'',
                    ''depth'', ''coinDeposited'', ''pcDeposited'', ''systemDecimalsValue'',
                    ''poolOpenTime''}.
                t k = sdk_fields env
                        (canonicalize (raw_pair accounts (accountKeyIndexes ix) params))
                        pd Map.empty k)"
proof -
  let ?idx = "accountKeyIndexes ix"
  let ?va = "map_accounts accounts ?idx"
  let ?p = "canonicalize (raw_pair accounts ?idx params)"
  let ?t0 = "td_base env accounts ?idx ?va ?p"
  from assms(1) obtain params' t1 pd t4 where
    s: "parseInit2 (data ix) = Inr params'"
       "pool_account_fields env (map_accounts accounts (accountKeyIndexes ix))
          (td_base env accounts (accountKeyIndexes ix) (map_accounts accounts (accountKeyIndexes ix))
            (canonicalize (raw_pair accounts (accountKeyIndexes ix) params'))) = Inr (Some (t1, pd))"
       "t = metadata env sig (market_authority env
             (sdk_fields env (canonicalize (raw_pair accounts (accountKeyIndexes ix) params')) pd t4))"
    by (rule buildRecord_SomeD)
  from s(1) assms(2) have p: "params' = params" by simp
  note s = s [unfolded p]
  have amm0: "t ''ammId'' = ?t0 ''ammId''"
    by (rule buildRecord_base [OF assms], simp add: base_keys_def)
  from pool_account_fields_SomeD(1) [OF s(2)] obtain amm poolBytes where
    pool: "new_PublicKey env (ammId ?va) = Inr amm" "getAccountInfo env amm = Inr (Some poolBytes)"
          "layoutDecode env poolBytes = Inr pd"
    by blast
  from pool(1) have amm: "t ''ammId'' = Some (JStr amm)"
    unfolding amm0 by (auto simp: new_PublicKey_def td_base_def split: jsval.splits if_splits)
  have "t k = sdk_fields env ?p pd Map.empty k"
    if "k \<in> {''swapFeeNumerator'', ''swapFeeDenominator'', ''ownerTradeFeeNumerator'',
               ''ownerTradeFeeDenominator'', ''ownerWithdrawFeeNumerator'',
               ''ownerWithdrawFeeDenominator'', ''status'', ''state'', ''resetFlag'',
               ''minSize'', ''volMaxCutRatio'', ''pnlNumerator'', ''pnlDenominator'',
               ''depth'', ''coinDeposited'', ''pcDeposited'', ''systemDecimalsValue'',
               ''poolOpenTime''}" for k
  proof -
    from that have nk: "k \<noteq> ''marketAuthority''"
        "k \<notin> {''lookupTableAccount'', ''routeType'', ''sdkVersion'', ''ammVersion'',
               ''createdAt'', ''signature''}"
      by auto
    have "t k = sdk_fields env ?p pd t4 k"
      unfolding s(3) by (simp only: metadata_frame [OF nk(2)] market_authority_frame [OF nk(1)])
    also have "\<dots> = sdk_fields env ?p pd Map.empty k"
      using that unfolding sdk_fields_def by (elim insertE emptyE) simp_all
    finally show ?thesis .
  qed
  with amm pool(2,3) show ?thesis by blast
qed

lemma toString_or_BN: "toString_or (Some (LBN n)) d = JDec (int n)"
  by (simp add: toString_or_def)

lemma toString_or_default: "x = None \<or> x = Some (LNumber 0) \<Longrightarrow> toString_or x d = d"
  by (auto simp: toString_or_def)

text \<open>
  C9. Whatever record the pipeline persists, it was built from the decoded state \<open>pd\<close> of
  the pool account named by its \<open>ammId\<close>, and:

    \<^item> each of the ten fields read as \<^verbatim>\<open>Number(x) || d\<close> that decodes to the number 0 holds
      its default \<open>d\<close> in the record (25, 10000, 5, 10000, 0, 10000, 6, 1, 0 and 6), since
      0 is falsy;

    \<^item> each of the eight fields read as \<^verbatim>\<open>x ? x.toString() : d\<close> holds its default only
      where the field is absent or a plain number 0; a big-number object is truthy
      whatever it holds and is kept as its decimal string, so a decoded big-number 0 is
      stored as \<^verbatim>\<open>"0"\<close>, where the default is \<^verbatim>\<open>'1'\<close> for \<open>minSize\<close> and
      \<open>pnlDenominator\<close>, \<^verbatim>\<open>'0'\<close> for \<open>volMaxCutRatio\<close>, \<open>pnlNumerator\<close> and \<open>depth\<close>, the
      record's initial amounts for \<open>coinDeposited\<close> and \<open>pcDeposited\<close>, and the current
      time for \<open>poolOpenTime\<close>.
\<close>

theorem zero_field_default_by_truthiness:
  assumes "processRaydiumLpTransaction env sig = (res, docs)" and "t \<in> set docs"
  shows "\<exists>amm poolBytes pd.
           t ''ammId'' = Some (JStr amm)
         \<and> getAccountInfo env amm = Inr (Some poolBytes)
         \<and> layoutDecode env poolBytes = Inr pd
         \<and> (Number_of (swapFeeNumerator pd) = JNum 0
              \<longrightarrow> t ''swapFeeNumerator'' = Some (JNum 25))
         \<and> (Number_of (swapFeeDenominator pd) = JNum 0
              \<longrightarrow> t ''swapFeeDenominator'' = Some (JNum 10000))
         \<and> (Number_of (ownerTradeFeeNumerator pd) = JNum 0
              \<longrightarrow> t ''ownerTradeFeeNumerator'' = Some (JNum 5))
         \<and> (Number_of (ownerTradeFeeDenominator pd) = JNum 0
              \<longrightarrow> t ''ownerTradeFeeDenominator'' = Some (JNum 10000))
         \<and> (Number_of (ownerWithdrawFeeNumerator pd) = JNum 0
              \<longrightarrow> t ''ownerWithdrawFeeNumerator'' = Some (JNum 0))
         \<and> (Number_of (ownerWithdrawFeeDenominator pd) = JNum 0
              \<longrightarrow> t ''ownerWithdrawFeeDenominator'' = Some (JNum 10000))
         \<and> (Number_of (status pd) = JNum 0 \<longrightarrow> t ''status'' = Some (JNum 6))
         \<and> (Number_of (state pd) = JNum 0 \<longrightarrow> t ''state'' = Some (JNum 1))
         \<and> (Number_of (resetFlag pd) = JNum 0 \<longrightarrow> t ''resetFlag'' = Some (JNum 0))
         \<and> (Number_of (systemDecimalsValue pd) = JNum 0
              \<longrightarrow> t ''systemDecimalsValue'' = Some (JNum 6))
         \<and> (\<forall>n. minSize pd = Some (LBN n) \<longrightarrow> t ''minSize'' = Some (JDec (int n)))
         \<and> (minSize pd = None \<or> minSize pd = Some (LNumber 0)
              \<longrightarrow> t ''minSize'' = Some (JDec 1))
         \<and> (\<forall>n. volMaxCutRatio pd = Some (LBN n)
              \<longrightarrow> t ''volMaxCutRatio'' = Some (JDec (int n)))
         \<and> (volMaxCutRatio pd = None \<or> volMaxCutRatio pd = Some (LNumber 0)
              \<longrightarrow> t ''volMaxCutRatio'' = Some (JDec 0))
         \<and> (\<forall>n. pnlNumerator pd = Some (LBN n)
              \<longrightarrow> t ''pnlNumerator'' = Some (JDec (int n)))
         \<and> (pnlNumerator pd = None \<or> pnlNumerator pd = Some (LNumber 0)
              \<longrightarrow> t ''pnlNumerator'' = Some (JDec 0))
         \<and> (\<forall>n. pnlDenominator pd = Some (LBN n)
              \<longrightarrow> t ''pnlDenominator'' = Some (JDec (int n)))
         \<and> (pnlDenominator pd = None \<or> pnlDenominator pd = Some (LNumber 0)
              \<longrightarrow> t ''pnlDenominator'' = Some (JDec 1))
         \<and> (\<forall>n. depth pd = Some (LBN n) \<longrightarrow> t ''depth'' = Some (JDec (int n)))
         \<and> (depth pd = None \<or> depth pd = Some (LNumber 0)
              \<longrightarrow> t ''depth'' = Some (JDec 0))
         \<and> (\<forall>n. coinDeposited pd = Some (LBN n)
              \<longrightarrow> t ''coinDeposited'' = Some (JDec (int n)))
         \<and> (coinDeposited pd = None \<or> coinDeposited pd = Some (LNumber 0)
              \<longrightarrow> t ''coinDeposited'' = t ''initCoinAmount'')
         \<and> (\<forall>n. pcDeposited pd = Some (LBN n)
              \<longrightarrow> t ''pcDeposited'' = Some (JDec (int n)))
         \<and> (pcDeposited pd = None \<or> pcDeposited pd = Some (LNumber 0)
              \<longrightarrow> t ''pcDeposited'' = t ''initPcAmount'')
         \<and> (\<forall>n. poolOpenTime pd = Some (LBN n)
              \<longrightarrow> t ''poolOpenTime'' = Some (JDec (int n)))
         \<and> (poolOpenTime pd = None \<or> poolOpenTime pd = Some (LNumber 0)
              \<longrightarrow> t ''poolOpenTime'' = Some (JDec (int (nowSeconds env))))"
proof -
  from persisted_is_built [OF assms] obtain user and msg :: message and ix where
    b: "buildRecord env user sig (accountKeys msg) ix = Inr (Some t)"
    by blast
  from buildRecord_params [OF b] obtain params where
    p: "parseInit2 (data ix) = Inr params"
    by blast
  define p' where "p' = canonicalize (raw_pair (accountKeys msg) (accountKeyIndexes ix) params)"
  from buildRecord_sdk [OF b p] obtain amm poolBytes pd where
    l: "t ''ammId'' = Some (JStr amm)" "getAccountInfo env amm = Inr (Some poolBytes)"
       "layoutDecode env poolBytes = Inr pd" and
    sdk: "\<forall>k \<in> {''swapFeeNumerator'', ''swapFeeDenominator'', ''ownerTradeFeeNumerator'',
                 ''ownerTradeFeeDenominator'', ''ownerWithdrawFeeNumerator'',
                 ''ownerWithdrawFeeDenominator'', ''status'', ''state'', ''resetFlag'',
                 ''minSize'', ''volMaxCutRatio'', ''pnlNumerator'', ''pnlDenominator'',
                 ''depth'', ''coinDeposited'', ''pcDeposited'', ''systemDecimalsValue'',
                 ''poolOpenTime''}.
             t k = sdk_fields env p' pd Map.empty k"
    unfolding p'_def by blast
  have amounts: "t ''initCoinAmount'' = Some (JDec (initBase p'))"
                "t ''initPcAmount'' = Some (JDec (initQuote p'))"
    by (subst buildRecord_base [OF b p],
        simp_all add: base_keys_def td_base_def p'_def [symmetric])+
  have f: "t ''swapFeeNumerator'' = Some (or_default (Number_of (swapFeeNumerator pd)) 25)"
          "t ''swapFeeDenominator'' = Some (or_default (Number_of (swapFeeDenominator pd)) 10000)"
          "t ''ownerTradeFeeNumerator''
             = Some (or_default (Number_of (ownerTradeFeeNumerator pd)) 5)"
          "t ''ownerTradeFeeDenominator''
             = Some (or_default (Number_of (ownerTradeFeeDenominator pd)) 10000)"
          "t ''ownerWithdrawFeeNumerator''
             = Some (or_default (Number_of (ownerWithdrawFeeNumerator pd)) 0)"
          "t ''ownerWithdrawFeeDenominator''
             = Some (or_default (Number_of (ownerWithdrawFeeDenominator pd)) 10000)"
          "t ''status'' = Some (or_default (Number_of (status pd)) 6)"
          "t ''state'' = Some (or_default (Number_of (state pd)) 1)"
          "t ''resetFlag'' = Some (or_default (Number_of (resetFlag pd)) 0)"
          "t ''systemDecimalsValue''
             = Some (or_default (Number_of (systemDecimalsValue pd)) 6)"
    using sdk by (simp_all add: sdk_fields_def)
  have g: "t ''minSize'' = Some (toString_or (minSize pd) (JDec 1))"
          "t ''volMaxCutRatio'' = Some (toString_or (volMaxCutRatio pd) (JDec 0))"
          "t ''pnlNumerator'' = Some (toString_or (pnlNumerator pd) (JDec 0))"
          "t ''pnlDenominator'' = Some (toString_or (pnlDenominator pd) (JDec 1))"
          "t ''depth'' = Some (toString_or (depth pd) (JDec 0))"
          "t ''coinDeposited'' = Some (toString_or (coinDeposited pd) (JDec (initBase p')))"
          "t ''pcDeposited'' = Some (toString_or (pcDeposited pd) (JDec (initQuote p')))"
          "t ''poolOpenTime''
             = Some (toString_or (poolOpenTime pd) (JDec (int (nowSeconds env))))"
    using sdk by (simp_all add: sdk_fields_def)
  show ?thesis
    apply (rule exI [of _ amm], rule exI [of _ poolBytes], rule exI [of _ pd])
    apply (intro conjI impI allI)
    apply (simp_all add: l f g amounts toString_or_BN toString_or_default)
    done
qed

theorem zero_field_default_by_truthiness_witness:
  "Number_of (swapFeeNumerator pool0) = JNum 0
   \<and> Number_of (swapFeeDenominator pool0) = JNum 0
   \<and> Number_of (ownerTradeFeeNumerator pool0) = JNum 0
   \<and> Number_of (ownerTradeFeeDenominator pool0) = JNum 0
   \<and> Number_of (ownerWithdrawFeeNumerator pool0) = JNum 0
   \<and> Number_of (ownerWithdrawFeeDenominator pool0) = JNum 0
   \<and> Number_of (status pool0) = JNum 0
   \<and> Number_of (state pool0) = JNum 0
   \<and> Number_of (resetFlag pool0) = JNum 0
   \<and> Number_of (systemDecimalsValue pool0) = JNum 0
   \<and> minSize pool0 = Some (LBN 0) \<and> volMaxCutRatio pool0 = None
   \<and> pnlNumerator pool0 = Some (LNumber 0) \<and> pnlDenominator pool0 = Some (LBN 0)
   \<and> depth pool0 = Some (LBN 3) \<and> coinDeposited pool0 = None
   \<and> pcDeposited pool0 = Some (LBN 0) \<and> poolOpenTime pool0 = Some (LBN 0)
   \<and> (\<exists>t. snd (processRaydiumLpTransaction env0 ''sig'') = [t]
         \<and> t ''swapFeeNumerator'' = Some (JNum 25)
         \<and> t ''swapFeeDenominator'' = Some (JNum 10000)
         \<and> t ''ownerTradeFeeNumerator'' = Some (JNum 5)
         \<and> t ''ownerTradeFeeDenominator'' = Some (JNum 10000)
         \<and> t ''ownerWithdrawFeeNumerator'' = Some (JNum 0)
         \<and> t ''ownerWithdrawFeeDenominator'' = Some (JNum 10000)
         \<and> t ''status'' = Some (JNum 6)
         \<and> t ''state'' = Some (JNum 1)
         \<and> t ''resetFlag'' = Some (JNum 0)
         \<and> t ''systemDecimalsValue'' = Some (JNum 6)
         \<and> t ''minSize'' = Some (JDec 0)
         \<and> t ''volMaxCutRatio'' = Some (JDec 0)
         \<and> t ''pnlNumerator'' = Some (JDec 0)
         \<and> t ''pnlDenominator'' = Some (JDec 0)
         \<and> t ''depth'' = Some (JDec 3)
         \<and> t ''coinDeposited'' = t ''initCoinAmount''
         \<and> t ''pcDeposited'' = Some (JDec 0)
         \<and> t ''poolOpenTime'' = Some (JDec 0))"
proof -
  have z: "Number_of (swapFeeNumerator pool0) = JNum 0"
          "Number_of (swapFeeDenominator pool0) = JNum 0"
          "Number_of (ownerTradeFeeNumerator pool0) = JNum 0"
          "Number_of (ownerTradeFeeDenominator pool0) = JNum 0"
          "Number_of (ownerWithdrawFeeNumerator pool0) = JNum 0"
          "Number_of (ownerWithdrawFeeDenominator pool0) = JNum 0"
          "Number_of (status pool0) = JNum 0"
          "Number_of (state pool0) = JNum 0"
          "Number_of (resetFlag pool0) = JNum 0"
          "Number_of (systemDecimalsValue pool0) = JNum 0"
    by (simp_all add: pool0_def double_of_nat_def)
  have s: "minSize pool0 = Some (LBN 0)" "volMaxCutRatio pool0 = None"
          "pnlNumerator pool0 = Some (LNumber 0)" "pnlDenominator pool0 = Some (LBN 0)"
          "depth pool0 = Some (LBN 3)" "coinDeposited pool0 = None"
          "pcDeposited pool0 = Some (LBN 0)" "poolOpenTime pool0 = Some (LBN 0)"
    by (simp_all add: pool0_def)
  obtain t where
    run: "processRaydiumLpTransaction env0 ''sig''
            = (Inr (Some (t(''tokenId'' \<mapsto> JStr ''id0''))), [t])"
    using processRaydiumLpTransaction0 by blast
  have mem: "t \<in> set [t]" by simp
  from zero_field_default_by_truthiness [OF run mem] z s
  have "t ''swapFeeNumerator'' = Some (JNum 25)
         \<and> t ''swapFeeDenominator'' = Some (JNum 10000)
         \<and> t ''ownerTradeFeeNumerator'' = Some (JNum 5)
         \<and> t ''ownerTradeFeeDenominator'' = Some (JNum 10000)
         \<and> t ''ownerWithdrawFeeNumerator'' = Some (JNum 0)
         \<and> t ''ownerWithdrawFeeDenominator'' = Some (JNum 10000)
         \<and> t ''status'' = Some (JNum 6)
         \<and> t ''state'' = Some (JNum 1)
         \<and> t ''resetFlag'' = Some (JNum 0)
         \<and> t ''systemDecimalsValue'' = Some (JNum 6)
         \<and> t ''minSize'' = Some (JDec 0)
         \<and> t ''volMaxCutRatio'' = Some (JDec 0)
         \<and> t ''pnlNumerator'' = Some (JDec 0)
         \<and> t ''pnlDenominator'' = Some (JDec 0)
         \<and> t ''depth'' = Some (JDec 3)
         \<and> t ''coinDeposited'' = t ''initCoinAmount''
         \<and> t ''pcDeposited'' = Some (JDec 0)
         \<and> t ''poolOpenTime'' = Some (JDec 0)"
    by auto
  with run z s show ?thesis by simp
qed

text \<open>
  The record of the example transaction, whose pool account decodes \<open>minSize\<close> and
  \<open>pnlDenominator\<close> to a big-number 0: both are stored as \<^verbatim>\<open>"0"\<close>, not as their default
  \<^verbatim>\<open>'1'\<close>.
\<close>

theorem decoded_zero_kept_for_big_number_counterexample:
  "getAccountInfo env0 ''pool'' = Inr (Some [])
   \<and> layoutDecode env0 [] = Inr pool0
   \<and> minSize pool0 = Some (LBN 0) \<and> Number_of (minSize pool0) = JNum 0
   \<and> pnlDenominator pool0 = Some (LBN 0) \<and> Number_of (pnlDenominator pool0) = JNum 0
   \<and> length (snd (processRaydiumLpTransaction env0 ''sig'')) = 1
   \<and> hd (snd (processRaydiumLpTransaction env0 ''sig'')) ''ammId'' = Some (JStr ''pool'')
   \<and> hd (snd (processRaydiumLpTransaction env0 ''sig'')) ''minSize'' = Some (JDec 0)
   \<and> hd (snd (processRaydiumLpTransaction env0 ''sig'')) ''minSize'' \<noteq> Some (JDec 1)
   \<and> hd (snd (processRaydiumLpTransaction env0 ''sig'')) ''pnlDenominator'' = Some (JDec 0)
   \<and> hd (snd (processRaydiumLpTransaction env0 ''sig'')) ''pnlDenominator'' \<noteq> Some (JDec 1)"
proof -
  obtain t where
    run: "processRaydiumLpTransaction env0 ''sig''
            = (Inr (Some (t(''tokenId'' \<mapsto> JStr ''id0''))), [t])"
    using processRaydiumLpTransaction0 by blast
  have mem: "t \<in> set [t]" by simp
  from persisted_is_built [OF run mem] obtain user ix where
    b: "buildRecord env0 user ''sig'' accounts0 ix = Inr (Some t)" and "ix \<in> set [ix0]"
    by auto
  then have b0: "buildRecord env0 user ''sig'' accounts0 ix0 = Inr (Some t)" by simp
  have amm: "t ''ammId'' = Some (JStr ''pool'')"
    by (subst buildRecord_base [OF b0 parseInit2_payload0])
       (simp_all add: base_keys_def td_base_def map_accounts_fixed accounts0_at)
  from buildRecord_sdk [OF b0 parseInit2_payload0] obtain amm' poolBytes pd where
    l: "layoutDecode env0 poolBytes = Inr pd" and
    sdk: "\<forall>k \<in> {''swapFeeNumerator'', ''swapFeeDenominator'', ''ownerTradeFeeNumerator'',
                 ''ownerTradeFeeDenominator'', ''ownerWithdrawFeeNumerator'',
                 ''ownerWithdrawFeeDenominator'', ''status'', ''state'', ''resetFlag'',
                 ''minSize'', ''volMaxCutRatio'', ''pnlNumerator'', ''pnlDenominator'',
                 ''depth'', ''coinDeposited'', ''pcDeposited'', ''systemDecimalsValue'',
                 ''poolOpenTime''}.
             t k = sdk_fields env0
                     (canonicalize (raw_pair accounts0 (accountKeyIndexes ix0)
                        \<lparr>initPcAmount = 50000000000, initCoinAmount = 1000000000\<rparr>))
                     pd Map.empty k"
    by blast
  from l have pd: "pd = pool0" by simp
  have z: "minSize pool0 = Some (LBN 0)" "pnlDenominator pool0 = Some (LBN 0)"
    by (simp_all add: pool0_def)
  have kept: "t ''minSize'' = Some (JDec 0)" "t ''pnlDenominator'' = Some (JDec 0)"
    using sdk unfolding pd by (simp_all add: sdk_fields_def z toString_or_BN)
  from run amm kept z show ?thesis by (simp add: double_of_nat_def)
qed

subsection \<open>Base/quote orientation\<close>

lemma swap_pair_involution: "swap_pair (swap_pair p) = p"
  by (simp add: swap_pair_def)

text \<open>
  The guarded step itself, applied twice, gives the pair back only when both mints are the
  wrapped-native mint; otherwise the second application finds the orientation canonical
  and leaves it.
\<close>

lemma canonicalize_twice:
  "canonicalize (canonicalize p)
     = (if baseMint p = JStr WSOL_MINT \<and> quoteMint p = JStr WSOL_MINT then p
        else canonicalize p)"
  by (simp add: canonicalize_def swap_pair_def)

text \<open>
  C6. Let \<open>raw\<close> be the pair fields as the instruction lists them. The record the loop body
  builds holds \<open>swap_pair raw\<close> if the raw base mint is the wrapped-native mint constant and
  \<open>raw\<close> itself otherwise; \<open>swap_pair\<close> exchanges mint, vault and initial amount of the two
  sides together and nothing else, so applying it twice to any pair gives the pair back;
  and when the swap is applied, the record's \<open>quoteMint\<close> is the raw base mint and its
  \<open>baseMint\<close> the raw quote mint.
\<close>

theorem canonicalization_is_guarded_swap:
  assumes "buildRecord env user sig accounts ix = Inr (Some t)"
    and "parseInit2 (data ix) = Inr params"
    and "raw = raw_pair accounts (accountKeyIndexes ix) params"
    and "c = (if baseMint raw = JStr WSOL_MINT then swap_pair raw else raw)"
  shows "t ''baseMint'' = Some (baseMint c) \<and> t ''quoteMint'' = Some (quoteMint c)
       \<and> t ''baseVault'' = Some (baseVault c) \<and> t ''quoteVault'' = Some (quoteVault c)
       \<and> t ''initCoinAmount'' = Some (JDec (initBase c))
       \<and> t ''initPcAmount'' = Some (JDec (initQuote c))
       \<and> swap_pair raw =
            \<lparr>baseMint = quoteMint raw, quoteMint = baseMint raw,
             baseVault = quoteVault raw, quoteVault = baseVault raw,
             initBase = initQuote raw, initQuote = initBase raw\<rparr>
       \<and> (\<forall>p. swap_pair (swap_pair p) = p)
       \<and> (baseMint raw = JStr WSOL_MINT
            \<longrightarrow> t ''quoteMint'' = Some (baseMint raw) \<and> t ''baseMint'' = Some (quoteMint raw))
       \<and> (baseMint raw \<noteq> JStr WSOL_MINT
            \<longrightarrow> t ''baseMint'' = Some (baseMint raw) \<and> t ''quoteMint'' = Some (quoteMint raw))"
proof -
  have c: "c = canonicalize (raw_pair accounts (accountKeyIndexes ix) params)"
    by (simp add: assms(3,4) canonicalize_def)
  have f: "t k = td_base env accounts (accountKeyIndexes ix)
                   (map_accounts accounts (accountKeyIndexes ix)) c k"
    if "k \<in> base_keys" for k
    unfolding c by (rule buildRecord_base [OF assms(1,2) that])
  have fields:
    "t ''baseMint'' = Some (baseMint c)" "t ''quoteMint'' = Some (quoteMint c)"
    "t ''baseVault'' = Some (baseVault c)" "t ''quoteVault'' = Some (quoteVault c)"
    "t ''initCoinAmount'' = Some (JDec (initBase c))"
    "t ''initPcAmount'' = Some (JDec (initQuote c))"
    by (subst f, simp add: base_keys_def, simp add: td_base_def)+
  have sw: "quoteMint (swap_pair raw) = baseMint raw" "baseMint (swap_pair raw) = quoteMint raw"
    by (simp_all add: swap_pair_def)
  show ?thesis
    using fields sw by (simp add: assms(4) swap_pair_involution) (simp add: swap_pair_def)
qed

theorem canonicalization_is_guarded_swap_witness:
  "\<exists>t raw. buildRecord env0 ''userWallet'' ''sig'' accounts_flipped ix0 = Inr (Some t)
     \<and> raw = raw_pair accounts_flipped (accountKeyIndexes ix0)
               \<lparr>initPcAmount = 50000000000, initCoinAmount = 1000000000\<rparr>
     \<and> baseMint raw = JStr WSOL_MINT \<and> quoteMint raw = JStr ''TOKEN''
     \<and> baseVault raw = JStr ''wsolVault'' \<and> quoteVault raw = JStr ''tokenVault''
     \<and> initBase raw = 1000000000 \<and> initQuote raw = 50000000000
     \<and> t ''quoteMint'' = Some (JStr WSOL_MINT) \<and> t ''baseMint'' = Some (JStr ''TOKEN'')
     \<and> t ''quoteVault'' = Some (JStr ''wsolVault'') \<and> t ''baseVault'' = Some (JStr ''tokenVault'')
     \<and> t ''initPcAmount'' = Some (JDec 1000000000)
     \<and> t ''initCoinAmount'' = Some (JDec 50000000000)"
proof -
  obtain t where
    b: "buildRecord env0 ''userWallet'' ''sig'' accounts_flipped ix0 = Inr (Some t)"
    using buildRecord_flipped by blast
  define raw where "raw = raw_pair accounts_flipped (accountKeyIndexes ix0)
               \<lparr>initPcAmount = 50000000000, initCoinAmount = 1000000000\<rparr>"
  have r: "baseMint raw = JStr WSOL_MINT" "quoteMint raw = JStr ''TOKEN''"
          "baseVault raw = JStr ''wsolVault''" "quoteVault raw = JStr ''tokenVault''"
          "initBase raw = 1000000000" "initQuote raw = 50000000000"
    by (simp_all add: raw_def raw_pair_def accounts_flipped_at)
  from canonicalization_is_guarded_swap [OF b parseInit2_payload0 raw_def refl] r
  have "t ''quoteMint'' = Some (JStr WSOL_MINT) \<and> t ''baseMint'' = Some (JStr ''TOKEN'')
     \<and> t ''quoteVault'' = Some (JStr ''wsolVault'') \<and> t ''baseVault'' = Some (JStr ''tokenVault'')
     \<and> t ''initPcAmount'' = Some (JDec 1000000000)
     \<and> t ''initCoinAmount'' = Some (JDec 50000000000)"
    by (simp add: swap_pair_def)
  with b r raw_def show ?thesis by blast
qed

subsection \<open>The market account\<close>

text \<open>
  A call that returns a record or persists anything fetched a market account of at least
  341 bytes, the one its record names, and took the three side accounts from it.
\<close>

lemma record_needs_market_account:
  assumes "processRaydiumLpTransaction env sig = (res, docs)"
    and "(\<exists>r. res = Inr (Some r)) \<or> docs \<noteq> []"
  shows "\<exists>t m d. docs = [t] \<and> t ''marketId'' = Some (JStr m)
           \<and> getAccountInfo env m = Inr (Some d) \<and> 341 \<le> length d
           \<and> t ''marketEventQueue'' = Some (JStr (base58 env (subarray d 245 277)))
           \<and> t ''marketBids'' = Some (JStr (base58 env (subarray d 277 309)))
           \<and> t ''marketAsks'' = Some (JStr (base58 env (subarray d 309 341)))"
proof -
  from process_cases [OF assms(1)] assms(2) obtain user and msg :: message and ix t where
    b: "buildRecord env user sig (accountKeys msg) ix = Inr (Some t)" and d: "docs = [t]"
    by blast
  from buildRecord_params [OF b] obtain params where
    p: "parseInit2 (data ix) = Inr params"
    by blast
  from buildRecord_late [OF b p] d show ?thesis by blast
qed

text \<open>
  C7. Let the instruction name the market account \<open>m\<close> (slot 16), and let the ledger
  return nothing or fewer than 341 bytes for \<open>m\<close>. Then the loop body persists nothing and
  returns no record; and when the run gets as far as fetching the market account (the
  payload parsed, the pool block went through, \<open>m\<close> is a well-formed key), it returns
  \<^verbatim>\<open>null\<close>.
\<close>

theorem short_market_account_no_record:
  assumes "account_at accounts (accountKeyIndexes ix) 16 = JStr m"
    and "getAccountInfo env m = Inr None
         \<or> (\<exists>d. getAccountInfo env m = Inr (Some d) \<and> length d < 341)"
  shows "snd (processInstruction env user sig accounts ix) = []
       \<and> (\<forall>r. fst (processInstruction env user sig accounts ix) \<noteq> Inr (Some r))
       \<and> (validKey env m \<and> parseInit2 (data ix) = Inr params
            \<and> pool_account_fields env (map_accounts accounts (accountKeyIndexes ix))
                 (td_base env accounts (accountKeyIndexes ix)
                    (map_accounts accounts (accountKeyIndexes ix))
                    (canonicalize (raw_pair accounts (accountKeyIndexes ix) params)))
                = Inr (Some (t1, poolData))
            \<longrightarrow> processInstruction env user sig accounts ix = (Inr None, []))"
proof -
  let ?idx = "accountKeyIndexes ix"
  have none: "buildRecord env user sig accounts ix \<noteq> Inr (Some t)" for t
  proof
    assume b: "buildRecord env user sig accounts ix = Inr (Some t)"
    from buildRecord_params [OF b] obtain ps where p: "parseInit2 (data ix) = Inr ps"
      by blast
    from buildRecord_late [OF b p] obtain m' d where
      m': "t ''marketId'' = Some (JStr m')" "getAccountInfo env m' = Inr (Some d)"
          "341 \<le> length d"
      by blast
    have "t ''marketId'' = Some (account_at accounts ?idx 16)"
      by (subst buildRecord_base [OF b p]) (simp_all add: base_keys_def td_base_def)
    with m'(1) assms(1) have "m' = m" by simp
    with m'(2,3) assms(2) show False by auto
  qed
  have no_doc: "snd (processInstruction env user sig accounts ix) = []"
    and no_rec: "\<forall>r. fst (processInstruction env user sig accounts ix) \<noteq> Inr (Some r)"
    using none by (auto simp: processInstruction_def split: sum.splits option.splits)
  have null: "processInstruction env user sig accounts ix = (Inr None, [])"
    if v: "validKey env m" and p: "parseInit2 (data ix) = Inr params"
      and t1: "pool_account_fields env (map_accounts accounts ?idx)
                 (td_base env accounts ?idx (map_accounts accounts ?idx)
                    (canonicalize (raw_pair accounts ?idx params)))
                = Inr (Some (t1, poolData))"
  proof -
    have "t1 ''marketId'' = td_base env accounts ?idx (map_accounts accounts ?idx)
                    (canonicalize (raw_pair accounts ?idx params)) ''marketId''"
      by (rule pool_account_fields_keeps [OF t1]) (simp add: base_keys_def)
    then have "get_field t1 ''marketId'' = JStr m"
      by (simp add: get_field_def td_base_def assms(1))
    then have "serum_side_accounts env t1 = Inr None"
      using assms(2) v by (auto simp: serum_side_accounts_def new_PublicKey_def)
    then have "buildRecord env user sig accounts ix = Inr None"
      by (simp add: buildRecord_def Let_def p t1)
    then show ?thesis by (simp add: processInstruction_def)
  qed
  from no_doc no_rec null show ?thesis by blast
qed

theorem short_market_account_no_record_witness:
  "account_at accounts0 (accountKeyIndexes ix0) 16 = JStr ''market''
   \<and> getAccountInfo env_short_market ''market'' = Inr (Some (replicate 340 0))
   \<and> length (replicate 340 (0 :: 8 word)) < 341
   \<and> processInstruction env_short_market ''userWallet'' ''sig'' accounts0 ix0 = (Inr None, [])"
proof -
  let ?idx = "accountKeyIndexes ix0"
  let ?va = "map_accounts accounts0 ?idx"
  let ?t0 = "td_base env_short_market accounts0 ?idx ?va
               (canonicalize (raw_pair accounts0 ?idx
                  \<lparr>initPcAmount = 50000000000, initCoinAmount = 1000000000\<rparr>))"
  have short: "getAccountInfo env_short_market ''market'' = Inr None
         \<or> (\<exists>d. getAccountInfo env_short_market ''market'' = Inr (Some d) \<and> length d < 341)"
    by simp
  have "\<exists>t1. pool_account_fields env_short_market ?va ?t0 = Inr (Some (t1, pool0))"
    by (rule pool_account_fields_ok [where amm = "''pool''" and lp = "''lpMint''"
          and poolBytes = "[]"])
       (simp_all add: map_accounts_fixed accounts0_at pool0_def)
  then obtain t1 where
    t1: "pool_account_fields env_short_market ?va ?t0 = Inr (Some (t1, pool0))"
    by blast
  from short_market_account_no_record [OF accounts0_at(6) short,
      of "''userWallet''" "''sig''"
         "\<lparr>initPcAmount = 50000000000, initCoinAmount = 1000000000\<rparr>" t1 pool0]
    parseInit2_payload0 t1
  have "processInstruction env_short_market ''userWallet'' ''sig'' accounts0 ix0 = (Inr None, [])"
    by simp
  then show ?thesis by (simp add: accounts0_at)
qed


subsection \<open>Resuming a callback\<close>


lemma resume_settled:
  assumes "settled p"
  shows "resume R f w p r = (p, w)"
  using assms by (cases p; cases r) simp_all

lemma issue_sell_cases:
  "issue_sell f lpData amt = (Rejected TypeError, [])
   \<or> (\<exists>call. issue_sell f lpData amt = (AwaitSwap, [call]))"
  by (cases lpData) (simp_all add: issue_sell_def)

text \<open>
  Before the trade, a resumed callback touches nothing but the list of trades, and it
  appends exactly one trade exactly when it moves on to await it.
\<close>

lemma resume_pre_swap:
  assumes "pre_swap p" and "resume R f w p r = (p', w')"
  shows "self w' = self w \<and> listening w' = listening w \<and> tasks w' = tasks w
       \<and> ((p' = AwaitSwap \<and> (\<exists>call. trades w' = trades w @ [call]))
          \<or> ((pre_swap p' \<or> settled p') \<and> trades w' = trades w))"
proof (cases p)
  case AwaitFetch
  with assms(2) show ?thesis
    by (cases r) (auto simp: after_fetch_def split: jsval.splits if_splits)
next
  case (AwaitAccounts lpData)
  show ?thesis
  proof (cases r)
    case (Accounts accs)
    show ?thesis
    proof (cases "getTokenBalance_accounts accs")
      case None
      with assms(2) AwaitAccounts Accounts show ?thesis by auto
    next
      case (Some amt)
      with assms(2) AwaitAccounts Accounts issue_sell_cases [of f lpData amt]
      show ?thesis by auto
    qed
  qed (use assms(2) AwaitAccounts in auto)
next
  case (AwaitBalance lpData)
  show ?thesis
  proof (cases r)
    case (Balance amt)
    with assms(2) AwaitBalance issue_sell_cases [of f lpData "AmountString amt"]
    show ?thesis by auto
  qed (use assms(2) AwaitBalance in auto)
qed (use assms(1) in simp_all)

lemma resume_swap:
  assumes "resume R f w AwaitSwap r = (p', w')"
    and "vaultSubId (self w) = Some subId" and "subId \<noteq> 0"
  shows "(p' = AwaitSwap \<and> w' = w)
       \<or> (r = Swapped \<and> p' = AwaitRemove \<and> w' = w\<lparr>listening := False\<rparr>)
       \<or> (\<exists>e. r = Threw e \<and> p' = Rejected e \<and> w' = w)"
  using assms by (cases r) (auto simp: unsubscribe_start_def)

lemma resume_remove:
  assumes "resume R f w AwaitRemove r = (p', w')"
  shows "(p' = AwaitRemove \<or> settled p')
       \<and> listening w' = listening w \<and> trades w' = trades w \<and> tasks w' = tasks w"
  using assms by (cases r) auto

subsection \<open>Callbacks that have not settled\<close>

lemma filter_update_single:
  assumes "filter P xs = [p]" and "i < length xs" and "P (xs ! i)"
  shows "filter P (xs[i := y]) = (if P y then [y] else [])"
  using assms
proof (induction xs arbitrary: i)
  case Nil
  then show ?case by simp
next
  case (Cons x xs)
  show ?case
  proof (cases i)
    case 0
    with Cons.prems have "P x" and "filter P xs = []" by (auto split: if_splits)
    with 0 show ?thesis by simp
  next
    case (Suc j)
    with Cons.prems have j: "j < length xs" "P (xs ! j)" by simp_all
    then have "xs ! j \<in> set (filter P xs)" by simp
    then have ne: "filter P xs \<noteq> []" by (metis empty_iff list.set(1))
    with Cons.prems(1) have "\<not> P x" and "filter P xs = [p]" by (auto split: if_splits)
    with Cons.IH [OF _ j] Suc show ?thesis by simp
  qed
qed

lemma filter_update_all:
  assumes "list_all Q (filter P xs)" and "P y \<longrightarrow> Q y"
  shows "list_all Q (filter P (xs[i := y]))"
  using assms
proof (induction xs arbitrary: i)
  case Nil
  then show ?case by simp
next
  case (Cons x xs)
  then show ?case by (cases i) (auto split: if_splits)
qed

lemma pending_member:
  assumes "i < length (tasks w)" and "\<not> settled (tasks w ! i)"
  shows "tasks w ! i \<in> set (pending w)"
  using assms by (simp add: pending_def)

lemma pending_all_settled: "list_all settled (tasks w) \<Longrightarrow> pending w = []"
  by (simp add: pending_def list_all_iff)

subsection \<open>The phases are kept by a schedule without overlap\<close>

lemma step_unchanged:
  assumes "i < length (tasks w)" and "resume R f w (tasks w ! i) r = (tasks w ! i, w)"
  shows "step R f w (Resume i r) = w"
proof -
  have "(tasks w)[i := tasks w ! i] = tasks w" by (rule list_update_id)
  with assms show ?thesis by simp
qed

lemma watching_step:
  assumes "watching w" and "allowed w ev"
  shows "watching (step R f w ev) \<or> selling (step R f w ev)"
proof (cases ev)
  case (Notify lamports)
  with assms(2) have "pending w = []" by (simp add: pending_all_settled)
  with assms(1) Notify show ?thesis
    by (auto simp: watching_def pending_def on_account_change_def)
next
  case (Resume i r)
  show ?thesis
  proof (cases "i < length (tasks w) \<and> \<not> settled (tasks w ! i)")
    case False
    then have "step R f w ev = w"
      using Resume by (auto simp: resume_settled)
    with assms(1) show ?thesis by simp
  next
    case True
    then have i: "i < length (tasks w)" and u: "\<not> settled (tasks w ! i)" by simp_all
    from assms(1) pending_member [OF i u] have pw: "pending w = [tasks w ! i]"
      and pre: "pre_swap (tasks w ! i)"
      by (auto simp: watching_def)
    obtain p' w' where res: "resume R f w (tasks w ! i) r = (p', w')"
      by (cases "resume R f w (tasks w ! i) r") blast
    from resume_pre_swap [OF pre res] have
      same: "self w' = self w" "listening w' = listening w" "tasks w' = tasks w" and
      out: "(p' = AwaitSwap \<and> (\<exists>call. trades w' = trades w @ [call]))
            \<or> ((pre_swap p' \<or> settled p') \<and> trades w' = trades w)"
      by simp_all
    have st: "step R f w ev = w'\<lparr>tasks := (tasks w)[i := p']\<rparr>"
      using Resume i res same by simp
    have pend: "pending (step R f w ev) = (if \<not> settled p' then [p'] else [])"
      unfolding st pending_def using pw i u
      by (simp add: filter_update_single pending_def)
    from out show ?thesis
    proof
      assume "p' = AwaitSwap \<and> (\<exists>call. trades w' = trades w @ [call])"
      with assms(1) pend same have "selling (step R f w ev)"
        by (auto simp: selling_def watching_def st)
      then show ?thesis ..
    next
      assume "(pre_swap p' \<or> settled p') \<and> trades w' = trades w"
      with assms(1) pend same have "watching (step R f w ev)"
        by (auto simp: watching_def st)
      then show ?thesis ..
    qed
  qed
qed

lemma selling_step:
  assumes "selling w" and "allowed w ev"
  shows "selling (step R f w ev) \<or> closed (step R f w ev)"
proof (cases ev)
  case (Notify lamports)
  with assms(2) have "pending w = []" by (simp add: pending_all_settled)
  with assms(1) show ?thesis by (simp add: selling_def)
next
  case (Resume i r)
  show ?thesis
  proof (cases "i < length (tasks w) \<and> \<not> settled (tasks w ! i)")
    case False
    then have "step R f w ev = w"
      using Resume by (auto simp: resume_settled)
    with assms(1) show ?thesis by simp
  next
    case True
    then have i: "i < length (tasks w)" and u: "\<not> settled (tasks w ! i)" by simp_all
    from assms(1) pending_member [OF i u] have pw: "pending w = [tasks w ! i]"
      and sw: "tasks w ! i = AwaitSwap"
      by (auto simp: selling_def)
    from assms(1) obtain subId where sub: "vaultSubId (self w) = Some subId" "subId \<noteq> 0"
      by (auto simp: selling_def)
    obtain p' w' where res: "resume R f w AwaitSwap r = (p', w')"
      by (cases "resume R f w AwaitSwap r") blast
    from assms(2) Resume i sw have nothrow: "\<forall>e. r \<noteq> Threw e" by auto
    from resume_swap [OF res sub] nothrow
    have "(p' = AwaitSwap \<and> w' = w) \<or> (p' = AwaitRemove \<and> w' = w\<lparr>listening := False\<rparr>)"
      by auto
    then show ?thesis
    proof
      assume "p' = AwaitSwap \<and> w' = w"
      with res have "resume R f w (tasks w ! i) r = (tasks w ! i, w)" by (simp add: sw)
      from step_unchanged [OF i this] have "step R f w ev = w" using Resume by simp
      with assms(1) show ?thesis by simp
    next
      assume a: "p' = AwaitRemove \<and> w' = w\<lparr>listening := False\<rparr>"
      then have st: "step R f w ev = w\<lparr>listening := False, tasks := (tasks w)[i := AwaitRemove]\<rparr>"
        using Resume i sw res by simp
      have "pending (step R f w ev) = [AwaitRemove]"
        unfolding st pending_def using pw i u
        by (simp add: filter_update_single pending_def)
      with assms(1) have "closed (step R f w ev)"
        by (simp add: closed_def selling_def st)
      then show ?thesis ..
    qed
  qed
qed

lemma closed_step:
  assumes "closed w"
  shows "closed (step R f w ev)"
proof (cases ev)
  case (Notify lamports)
  with assms show ?thesis by (simp add: closed_def)
next
  case (Resume i r)
  show ?thesis
  proof (cases "i < length (tasks w) \<and> \<not> settled (tasks w ! i)")
    case False
    then have "step R f w ev = w"
      using Resume by (auto simp: resume_settled)
    with assms show ?thesis by simp
  next
    case True
    then have i: "i < length (tasks w)" and u: "\<not> settled (tasks w ! i)" by simp_all
    from assms pending_member [OF i u] have rm: "tasks w ! i = AwaitRemove"
      by (auto simp: closed_def list_all_iff)
    obtain p' w' where res: "resume R f w AwaitRemove r = (p', w')"
      by (cases "resume R f w AwaitRemove r") blast
    from resume_remove [OF res] have
      p': "p' = AwaitRemove \<or> settled p'" and
      same: "listening w' = listening w" "trades w' = trades w" "tasks w' = tasks w"
      by simp_all
    have st: "step R f w ev = w'\<lparr>tasks := (tasks w)[i := p']\<rparr>"
      using Resume i rm res same by simp
    have "list_all (\<lambda>p. p = AwaitRemove) (filter (\<lambda>p. \<not> settled p) ((tasks w)[i := p']))"
      using assms p' by (intro filter_update_all) (auto simp: closed_def pending_def)
    with assms same show ?thesis
      by (simp add: closed_def pending_def st)
  qed
qed

lemma phases_run:
  assumes "watching w \<or> selling w \<or> closed w" and "one_at_a_time R f w evs"
  shows "watching (run R f w evs) \<or> selling (run R f w evs) \<or> closed (run R f w evs)"
  using assms
proof (induction evs arbitrary: w)
  case Nil
  then show ?case by simp
next
  case (Cons ev evs)
  from Cons.prems have a: "allowed w ev" and rest: "one_at_a_time R f (step R f w ev) evs"
    by simp_all
  from Cons.prems(1) a have
    "watching (step R f w ev) \<or> selling (step R f w ev) \<or> closed (step R f w ev)"
    using watching_step [of w ev R f] selling_step [of w ev R f] closed_step [of w R f ev]
    by blast
  from Cons.IH [OF this rest] show ?case by simp
qed

lemma phases_trades:
  assumes "watching w \<or> selling w \<or> closed w"
  shows "length (trades w) \<le> 1"
  using assms by (auto simp: watching_def selling_def closed_def)


subsection \<open>The concrete session\<close>

lemma exact_runtime_sel [simp]:
  "toNumber exact_runtime (JNum n) = Finite (real n)"
  "toNumber exact_runtime (JDec i) = Finite (real_of_int i)"
  "num_add exact_runtime (Finite x) (Finite y) = Finite (x + y)"
  "num_sub exact_runtime (Finite x) (Finite y) = Finite (x - y)"
  "num_mul exact_runtime (Finite x) (Finite y) = Finite (x * y)"
  "y \<noteq> 0 \<Longrightarrow> num_div exact_runtime (Finite x) (Finite y) = Finite (x / y)"
  "num_pow exact_runtime (Finite x) (Finite y) = Finite (x ^ nat \<lfloor>y\<rfloor>)"
  "isKey exact_runtime k"
  by (simp_all add: exact_runtime_def exact2_def)

lemma cfg0_sel [simp]:
  "get_field cfg0 ''K'' = JDec 75"
  "get_field cfg0 ''V'' = JNum 50"
  "get_field cfg0 ''sellTargetPrice'' = JNum 50"
  "get_field cfg0 ''quoteDecimals'' = JNum 9"
  "get_field cfg0 ''baseMint'' = JStr ''TOKEN''"
  "get_field cfg0 ''quoteVault'' = JStr ''quoteVault''"
  by (simp_all add: cfg0_def get_field_def)

lemma sniper0_sel [simp]:
  "props sniper0 = cfg0"
  "calculatedSell sniper0 = Finite 75"
  "fullLpData sniper0 = Some lp0"
  "vaultSubId sniper0 = None"
  by (simp_all add: sniper0_def new_Sniper_def Let_def)

lemma subscribeToVault0: "subscribeToVault exact_runtime sniper0 7 = Inr world0"
  by (simp add: subscribeToVault_def world0_def)

lemma priceNow0:
  "x \<noteq> 0 \<Longrightarrow>
     priceNow exact_runtime (sniper0\<lparr>vaultSubId := v\<rparr>) (Finite x) = Finite (75 / (x / 10 ^ 9))"
  by (simp add: priceNow_def Let_def)

lemmas session0_simps =
  world0_def hit_def miss_def priceNow0 on_account_change_def after_fetch_def issue_sell_def
  getTokenBalance_accounts_def unsubscribe_start_def

subsection \<open>Sells and triggering notifications\<close>

lemma filter_length_update:
  assumes "i < length xs"
  shows "length (filter P (xs[i := y])) + (if P (xs ! i) then 1 else 0)
           = length (filter P xs) + (if P y then 1 else 0)"
  using assms
proof (induction xs arbitrary: i)
  case Nil
  then show ?case by simp
next
  case (Cons x xs)
  show ?case
  proof (cases i)
    case 0
    then show ?thesis by simp
  next
    case (Suc j)
    with Cons.prems have "j < length xs" by simp
    from Cons.IH [OF this] Suc show ?thesis by simp
  qed
qed

text \<open>
  Once the trade is issued, a resumed callback neither issues another trade nor goes back
  before it, whatever \<^verbatim>\<open>unsubscribe\<close> does.
\<close>

lemma resume_post_swap:
  assumes "\<not> pre_swap p" and "resume R f w p r = (p', w')"
  shows "\<not> pre_swap p' \<and> trades w' = trades w \<and> tasks w' = tasks w"
  using assms
  by (cases p; cases r) (auto simp: unsubscribe_start_def split: option.splits if_splits)

text \<open>
  Every trade is paid for by a triggering notification: the trades issued and the
  callbacks on their way to the trade together grow by at most one, and only at a
  triggering notification.
\<close>

lemma step_budget:
  "length (trades (step R f w ev)) + length (filter pre_swap (tasks (step R f w ev)))
     \<le> length (trades w) + length (filter pre_swap (tasks w))
         + (if triggering R w ev then 1 else 0)"
proof (cases ev)
  case (Notify lamports)
  then show ?thesis by (simp add: on_account_change_def)
next
  case (Resume i r)
  show ?thesis
  proof (cases "i < length (tasks w)")
    case False
    with Resume show ?thesis by simp
  next
    case i: True
    obtain p' w' where res: "resume R f w (tasks w ! i) r = (p', w')"
      by (cases "resume R f w (tasks w ! i) r") blast
    have st: "step R f w ev = w'\<lparr>tasks := (tasks w')[i := p']\<rparr>"
      using Resume i res by simp
    show ?thesis
    proof (cases "pre_swap (tasks w ! i)")
      case pre: True
      from resume_pre_swap [OF pre res] have
        same: "tasks w' = tasks w" and
        out: "(p' = AwaitSwap \<and> (\<exists>call. trades w' = trades w @ [call]))
              \<or> ((pre_swap p' \<or> settled p') \<and> trades w' = trades w)"
        by simp_all
      from filter_length_update [OF i, of pre_swap p'] pre
      have len: "length (filter pre_swap ((tasks w)[i := p'])) + 1
                   = length (filter pre_swap (tasks w)) + (if pre_swap p' then 1 else 0)"
        by simp
      from out show ?thesis
      proof
        assume "p' = AwaitSwap \<and> (\<exists>call. trades w' = trades w @ [call])"
        with len show ?thesis unfolding st by (auto simp: same Resume split: if_splits)
      next
        assume "(pre_swap p' \<or> settled p') \<and> trades w' = trades w"
        with len show ?thesis unfolding st by (auto simp: same Resume split: if_splits)
      qed
    next
      case post: False
      from resume_post_swap [OF post res] have
        p': "\<not> pre_swap p'" and same: "trades w' = trades w" "tasks w' = tasks w"
        by simp_all
      from filter_length_update [OF i, of pre_swap p'] post p'
      have "length (filter pre_swap ((tasks w)[i := p'])) = length (filter pre_swap (tasks w))"
        by simp
      then show ?thesis unfolding st by (simp add: same Resume)
    qed
  qed
qed

lemma run_budget:
  "length (trades (run R f w evs)) + length (filter pre_swap (tasks (run R f w evs)))
     \<le> length (trades w) + length (filter pre_swap (tasks w)) + triggers R f w evs"
proof (induction evs arbitrary: w)
  case Nil
  then show ?case by simp
next
  case (Cons ev evs)
  from Cons.IH [of "step R f w ev"] step_budget [of R f w ev]
  show ?case by simp
qed

lemma subscribeToVault0_id0: "subscribeToVault exact_runtime sniper0 0 = Inr world_id0"
  by (simp add: subscribeToVault_def world_id0_def)

lemmas session_id0_simps =
  world_id0_def hit_def miss_def priceNow0 on_account_change_def after_fetch_def issue_sell_def
  getTokenBalance_accounts_def unsubscribe_start_def

text \<open>
  C1 (as amended). The class has no guard against a second trigger: every notification
  at or above the target that reaches the callback starts a callback of its own, and each
  callback issues at most one sell trade. So in every session, whatever the schedule, the
  number of sell trades issued never exceeds the number of notifications at or above the
  target that were delivered while the listener was registered; in particular at most one
  sell trade is issued when at most one such notification is delivered.
\<close>

theorem sells_bounded_by_triggering_notifications:
  assumes "subscribeToVault R s subId = Inr w0"
  shows "length (trades (run R f w0 evs)) \<le> triggers R f w0 evs"
proof -
  from assms have "tasks w0 = []" and "trades w0 = []"
    by (auto simp: subscribeToVault_def split: jsval.splits if_splits)
  with run_budget [of R f w0 evs] show ?thesis by simp
qed

theorem sells_bounded_by_triggering_notifications_witness:
  "subscribeToVault exact_runtime sniper0 0 = Inr world_id0
   \<and> triggers exact_runtime Part002 world_id0 evs_single = 1
   \<and> length (trades (run exact_runtime Part002 world_id0 evs_single)) \<le> 1
   \<and> trades (run exact_runtime Part002 world_id0 evs_single) \<noteq> []
   \<and> triggers exact_runtime SniperJs world_id0 evs_single = 1
   \<and> length (trades (run exact_runtime SniperJs world_id0 evs_single)) \<le> 1
   \<and> trades (run exact_runtime SniperJs world_id0 evs_single) \<noteq> []"
proof -
  have n: "triggers exact_runtime Part002 world_id0 evs_single = 1"
          "triggers exact_runtime SniperJs world_id0 evs_single = 1"
    by (simp_all add: evs_single_def session_id0_simps)
  have t: "trades (run exact_runtime Part002 world_id0 evs_single) \<noteq> []"
          "trades (run exact_runtime SniperJs world_id0 evs_single) \<noteq> []"
    by (simp_all add: evs_single_def session_id0_simps)
  from sells_bounded_by_triggering_notifications [OF subscribeToVault0_id0, of Part002 evs_single]
       sells_bounded_by_triggering_notifications [OF subscribeToVault0_id0, of SniperJs evs_single]
       subscribeToVault0_id0 n t
  show ?thesis by simp
qed

text \<open>
  C1 as written fails: two notifications at the target delivered back to back, before
  the first sell has completed, make both callbacks call the trade executor: two sell
  trades are issued, and both are in flight. This is so in both copies of the class and
  whatever the subscription id (here 0 and 7).
\<close>

theorem two_sells_when_notifications_overlap_counterexample:
  "subscribeToVault exact_runtime sniper0 0 = Inr world_id0
   \<and> js_ge (priceNow exact_runtime (self world_id0) (Finite 1000000000))
        (calculatedSell (self world_id0))
   \<and> tasks (run exact_runtime SniperJs world_id0 evs_overlap) = [AwaitSwap, AwaitSwap]
   \<and> length (trades (run exact_runtime SniperJs world_id0 evs_overlap)) = 2
   \<and> tasks (run exact_runtime Part002 world_id0 evs_overlap) = [AwaitSwap, AwaitSwap]
   \<and> length (trades (run exact_runtime Part002 world_id0 evs_overlap)) = 2
   \<and> subscribeToVault exact_runtime sniper0 7 = Inr world0
   \<and> js_ge (priceNow exact_runtime (self world0) (Finite 1000000000))
        (calculatedSell (self world0))
   \<and> tasks (run exact_runtime SniperJs world0 evs_overlap) = [AwaitSwap, AwaitSwap]
   \<and> length (trades (run exact_runtime SniperJs world0 evs_overlap)) = 2
   \<and> tasks (run exact_runtime Part002 world0 evs_overlap) = [AwaitSwap, AwaitSwap]
   \<and> length (trades (run exact_runtime Part002 world0 evs_overlap)) = 2"
  by (simp add: subscribeToVault0 subscribeToVault0_id0 evs_overlap_def session0_simps
      world_id0_def)

subsection \<open>Unsubscribing\<close>

text \<open>The listener is dropped at one moment only: when an awaited sell trade resolves.\<close>

lemma listener_dropped_only_after_sell:
  assumes "listening w" and "\<not> listening (step R f w ev)"
  shows "\<exists>i. ev = Resume i Swapped \<and> i < length (tasks w) \<and> tasks w ! i = AwaitSwap"
proof (cases ev)
  case (Notify lamports)
  with assms show ?thesis by simp
next
  case (Resume i r)
  show ?thesis
  proof (cases "i < length (tasks w)")
    case False
    with assms Resume show ?thesis by simp
  next
    case i: True
    obtain p' w' where res: "resume R f w (tasks w ! i) r = (p', w')"
      by (cases "resume R f w (tasks w ! i) r") blast
    with assms Resume i have drop: "\<not> listening w'" by simp
    have "tasks w ! i = AwaitSwap \<and> r = Swapped"
    proof (rule ccontr)
      assume "\<not> (tasks w ! i = AwaitSwap \<and> r = Swapped)"
      with res have "listening w' = listening w"
        by (cases "tasks w ! i"; cases r)
           (auto simp: issue_sell_def split: option.splits)
      with assms(1) drop show False by simp
    qed
    with Resume i show ?thesis by simp
  qed
qed

text \<open>
  C2 (as amended). When a notification triggers the exit, the callback fetches the
  record, reads the balance, issues the sell trade and awaits it with the subscription
  untouched: the listener is still registered, the subscription id is still in place, and
  a further notification starts a further callback. The callback enters \<^verbatim>\<open>unsubscribe\<close>
  only when the awaited trade has resolved, and in no session is the listener dropped at
  any other moment. If the trade rejects, the callback rejects with the same error and
  nothing else changes: \<^verbatim>\<open>unsubscribe\<close> is not called.
\<close>

theorem sell_is_awaited_before_unsubscribe:
  assumes "listening w"
    and "js_ge (priceNow R (self w) lamports) (calculatedSell (self w))"
    and "get_field (props (self w)) ''baseMint'' = JStr k" and "isKey R k"
    and "i = length (tasks w)"
    and "balance = [Resume i (Accounts [])]
         \<or> balance = [Resume i (Accounts (a # rest)), Resume i (Balance amt)]"
    and "w1 = run R f w ([Notify lamports, Resume i (Fetched (Some lp))] @ balance)"
  shows "tasks w1 ! i = AwaitSwap \<and> length (trades w1) = Suc (length (trades w))
       \<and> listening w1 \<and> vaultSubId (self w1) = vaultSubId (self w)
       \<and> step R f w1 (Notify lamports')
           = w1\<lparr>tasks := tasks w1 @ [on_account_change R (self w1) lamports']\<rparr>
       \<and> step R f w1 (Resume i Swapped)
           = (snd (unsubscribe_start w1))\<lparr>tasks := (tasks w1)[i := fst (unsubscribe_start w1)]\<rparr>
       \<and> step R f w1 (Resume i (Threw e)) = w1\<lparr>tasks := (tasks w1)[i := Rejected e]\<rparr>
       \<and> (\<forall>w' ev. listening w' \<and> \<not> listening (step R f w' ev)
            \<longrightarrow> (\<exists>j. ev = Resume j Swapped \<and> j < length (tasks w')
                     \<and> tasks w' ! j = AwaitSwap))"
proof -
  define call where "call amount =
    swap_call_of f lp amount True (get_field lp ''baseMint'' = JStr WSOL_MINT)
      (get_field lp ''quoteMint'' = JStr WSOL_MINT)" for amount
  have "\<exists>amount. w1 = w\<lparr>tasks := tasks w @ [AwaitSwap], trades := trades w @ [call amount]\<rparr>"
    using assms(6)
  proof
    assume "balance = [Resume i (Accounts [])]"
    then have "w1 = w\<lparr>tasks := tasks w @ [AwaitSwap],
                     trades := trades w @ [call (AmountNumber (Finite 0))]\<rparr>"
      using assms(1-5,7)
      by (simp add: on_account_change_def after_fetch_def issue_sell_def
          getTokenBalance_accounts_def call_def)
    then show ?thesis by blast
  next
    assume "balance = [Resume i (Accounts (a # rest)), Resume i (Balance amt)]"
    then have "w1 = w\<lparr>tasks := tasks w @ [AwaitSwap],
                     trades := trades w @ [call (AmountString amt)]\<rparr>"
      using assms(1-5,7)
      by (simp add: on_account_change_def after_fetch_def issue_sell_def
          getTokenBalance_accounts_def call_def)
    then show ?thesis by blast
  qed
  then obtain amount where
    w1: "w1 = w\<lparr>tasks := tasks w @ [AwaitSwap], trades := trades w @ [call amount]\<rparr>"
    by blast
  have a: "tasks w1 ! i = AwaitSwap" "length (trades w1) = Suc (length (trades w))"
          "listening w1" "vaultSubId (self w1) = vaultSubId (self w)"
    using assms(1,5) by (simp_all add: w1)
  have i: "i < length (tasks w1)" using assms(5) by (simp add: w1)
  have n: "step R f w1 (Notify lamports')
             = w1\<lparr>tasks := tasks w1 @ [on_account_change R (self w1) lamports']\<rparr>"
    using a(3) by simp
  have s: "step R f w1 (Resume i Swapped)
             = (snd (unsubscribe_start w1))\<lparr>tasks := (tasks w1)[i := fst (unsubscribe_start w1)]\<rparr>"
    using i a(1) by (simp add: unsubscribe_start_def split: option.splits)
  have r: "step R f w1 (Resume i (Threw e)) = w1\<lparr>tasks := (tasks w1)[i := Rejected e]\<rparr>"
    using i a(1) by simp
  have d: "\<forall>w' ev. listening w' \<and> \<not> listening (step R f w' ev)
            \<longrightarrow> (\<exists>j. ev = Resume j Swapped \<and> j < length (tasks w')
                     \<and> tasks w' ! j = AwaitSwap)"
    using listener_dropped_only_after_sell by blast
  from a n s r d show ?thesis by blast
qed

theorem sell_is_awaited_before_unsubscribe_witness:
  "listening world_id0 \<and> vaultSubId (self world_id0) = Some 0
   \<and> js_ge (priceNow exact_runtime (self world_id0) (Finite 1000000000))
        (calculatedSell (self world_id0))
   \<and> tasks (run exact_runtime Part002 world_id0 evs_in_flight) ! 0 = AwaitSwap
   \<and> length (trades (run exact_runtime Part002 world_id0 evs_in_flight)) = 1
   \<and> listening (run exact_runtime Part002 world_id0 evs_in_flight)
   \<and> vaultSubId (self (run exact_runtime Part002 world_id0 evs_in_flight)) = Some 0
   \<and> tasks (step exact_runtime Part002 (run exact_runtime Part002 world_id0 evs_in_flight)
        (Notify (Finite 1000000000))) = [AwaitSwap, AwaitFetch]
   \<and> tasks (step exact_runtime Part002 (run exact_runtime Part002 world_id0 evs_in_flight)
        (Resume 0 (Threw TradeError))) = [Rejected TradeError]
   \<and> listening (step exact_runtime Part002 (run exact_runtime Part002 world_id0 evs_in_flight)
        (Resume 0 (Threw TradeError)))"
proof -
  have h: "listening world_id0"
    "js_ge (priceNow exact_runtime (self world_id0) (Finite 1000000000))
       (calculatedSell (self world_id0))"
    "get_field (props (self world_id0)) ''baseMint'' = JStr ''TOKEN''"
    "isKey exact_runtime ''TOKEN''"
    "0 = length (tasks world_id0)"
    by (simp_all add: session_id0_simps)
  have v: "vaultSubId (self world_id0) = Some 0" by (simp add: world_id0_def)
  have e: "run exact_runtime Part002 world_id0 evs_in_flight
             = run exact_runtime Part002 world_id0
                 ([Notify (Finite 1000000000), Resume 0 (Fetched (Some lp0))]
                  @ [Resume 0 (Accounts [])])"
    by (simp add: evs_in_flight_def hit_def)
  define w1 where "w1 = run exact_runtime Part002 world_id0 evs_in_flight"
  from sell_is_awaited_before_unsubscribe [OF h disjI1 [OF refl] e [folded w1_def],
         of "Finite 1000000000" TradeError]
  have f: "tasks w1 ! 0 = AwaitSwap" "length (trades w1) = Suc (length (trades world_id0))"
          "listening w1" "vaultSubId (self w1) = vaultSubId (self world_id0)"
          "step exact_runtime Part002 w1 (Notify (Finite 1000000000))
             = w1\<lparr>tasks := tasks w1 @ [on_account_change exact_runtime (self w1)
                                          (Finite 1000000000)]\<rparr>"
          "step exact_runtime Part002 w1 (Resume 0 (Threw TradeError))
             = w1\<lparr>tasks := (tasks w1)[0 := Rejected TradeError]\<rparr>"
    by blast+
  have t: "tasks w1 = [AwaitSwap]" "self w1 = self world_id0"
    unfolding w1_def by (simp_all add: evs_in_flight_def session_id0_simps)
  have "tasks (step exact_runtime Part002 w1 (Notify (Finite 1000000000)))
          = [AwaitSwap, AwaitFetch]"
    unfolding f(5) by (simp add: t h(2) on_account_change_def)
  moreover have "tasks (step exact_runtime Part002 w1 (Resume 0 (Threw TradeError)))
                   = [Rejected TradeError]"
    unfolding f(6) by (simp add: t)
  moreover have "listening (step exact_runtime Part002 w1 (Resume 0 (Threw TradeError)))"
    unfolding f(6) using f(3) by simp
  moreover have "length (trades w1) = 1" using f(2) by (simp add: world_id0_def)
  ultimately show ?thesis
    using h(1,2) v f(1,3,4) unfolding w1_def by simp
qed

text \<open>
  C2 as written fails, in both copies of the class and whatever the subscription id (here
  0 and 7). While the trade of the first callback is awaited the listener is still
  registered, and a further notification at the target starts a second callback; and
  when the trade rejects, the callback rejects, the listener stays registered and the
  subscription id stays in place.
\<close>

theorem sell_awaited_before_unsubscribe_counterexample:
  "tasks (run exact_runtime Part002 world_id0 evs_in_flight) = [AwaitSwap]
   \<and> length (trades (run exact_runtime Part002 world_id0 evs_in_flight)) = 1
   \<and> listening (run exact_runtime Part002 world_id0 evs_in_flight)
   \<and> tasks (run exact_runtime Part002 world_id0 (evs_in_flight @ [hit]))
        = [AwaitSwap, AwaitFetch]
   \<and> tasks (run exact_runtime Part002 world_id0 (evs_in_flight @ [Resume 0 (Threw TradeError)]))
        = [Rejected TradeError]
   \<and> listening (run exact_runtime Part002 world_id0
        (evs_in_flight @ [Resume 0 (Threw TradeError)]))
   \<and> vaultSubId (self (run exact_runtime Part002 world_id0
        (evs_in_flight @ [Resume 0 (Threw TradeError)]))) = Some 0
   \<and> tasks (run exact_runtime SniperJs world0 evs_in_flight) = [AwaitSwap]
   \<and> length (trades (run exact_runtime SniperJs world0 evs_in_flight)) = 1
   \<and> listening (run exact_runtime SniperJs world0 evs_in_flight)
   \<and> tasks (run exact_runtime SniperJs world0 (evs_in_flight @ [hit])) = [AwaitSwap, AwaitFetch]
   \<and> tasks (run exact_runtime SniperJs world0 (evs_in_flight @ [Resume 0 (Threw TradeError)]))
        = [Rejected TradeError]
   \<and> listening (run exact_runtime SniperJs world0 (evs_in_flight @ [Resume 0 (Threw TradeError)]))
   \<and> vaultSubId (self (run exact_runtime SniperJs world0
        (evs_in_flight @ [Resume 0 (Threw TradeError)]))) = Some 7"
  by (simp add: evs_in_flight_def session0_simps world_id0_def)

subsection \<open>What removing the listener achieves\<close>

text \<open>
  \<^verbatim>\<open>unsubscribe\<close> removes the listener only when the subscription id is truthy. In a
  session whose subscription id is not 0, if no two callbacks overlap (a notification is
  delivered only when every earlier callback has settled) and the trade never rejects,
  at most one sell trade is issued.
\<close>

lemma one_sell_without_overlap_when_id_truthy:
  assumes "subscribeToVault R s subId = Inr w0" and "subId \<noteq> 0"
    and "one_at_a_time R f w0 evs"
  shows "length (trades (run R f w0 evs)) \<le> 1"
proof -
  from assms(1) have
    w0: "w0 = \<lparr>self = s\<lparr>vaultSubId := Some subId\<rparr>, listening = True, tasks = [], trades = []\<rparr>"
    by (auto simp: subscribeToVault_def split: jsval.splits if_splits)
  with assms(2) have "watching w0" by (simp add: watching_def pending_def)
  then have "watching w0 \<or> selling w0 \<or> closed w0" by simp
  from phases_trades [OF phases_run [OF this assms(3)]] show ?thesis .
qed

text \<open>
  With the id 0, \<^verbatim>\<open>unsubscribe\<close> does nothing, so even callbacks that do not overlap
  sell twice.
\<close>

lemma subscription_id_zero_is_never_removed:
  "subscribeToVault exact_runtime sniper0 0 = Inr world_id0
   \<and> one_at_a_time exact_runtime SniperJs world_id0 evs_twice
   \<and> listening (run exact_runtime SniperJs world_id0 evs_twice)
   \<and> tasks (run exact_runtime SniperJs world_id0 evs_twice) = [Done, AwaitSwap]
   \<and> length (trades (run exact_runtime SniperJs world_id0 evs_twice)) = 2"
  by (simp add: subscribeToVault_def evs_twice_def world_id0_def hit_def priceNow0
      on_account_change_def after_fetch_def issue_sell_def getTokenBalance_accounts_def
      unsubscribe_start_def)

subsection \<open>The cached record of the buy\<close>

text \<open>
  The copy in part_002 clears the cached record whatever the trade does, and
  \<^verbatim>\<open>src/sniper.js\<close> clears it when the trade resolves.
\<close>

lemma executeBuy_part_002_releases:
  assumes "fullLpData s = Some lp"
  shows "fullLpData (fst (snd (executeBuy R Part002 s swapResult))) = None
       \<and> fst (executeBuy R Part002 s swapResult)
           = (case swapResult of Inl e \<Rightarrow> Inl e | Inr u \<Rightarrow> Inr ())
       \<and> length (snd (snd (executeBuy R Part002 s swapResult))) = 1"
  using assms by (cases swapResult) (simp_all add: executeBuy_def Let_def)

lemma executeBuy_releases_on_success:
  assumes "fullLpData s = Some lp"
  shows "fullLpData (fst (snd (executeBuy R f s (Inr u)))) = None"
  using assms by (simp add: executeBuy_def Let_def)

lemma executeBuy_sniper_js_keeps_on_failure:
  assumes "fullLpData s = Some lp"
  shows "fst (executeBuy R SniperJs s (Inl e)) = Inl e
       \<and> fullLpData (fst (snd (executeBuy R SniperJs s (Inl e)))) = Some lp"
  using assms by (simp add: executeBuy_def Let_def)

text \<open>
  C4 fails on \<^verbatim>\<open>src/sniper.js\<close>: with a cached record and a trade that rejects,
  \<^verbatim>\<open>executeBuy\<close> throws the trade's error and the record is still cached afterwards,
  where the copy in part_002 has cleared it.
\<close>

theorem executeBuy_keeps_record_when_trade_fails:
  "fullLpData sniper0 = Some lp0
   \<and> fst (executeBuy exact_runtime SniperJs sniper0 (Inl TradeError)) = Inl TradeError
   \<and> fullLpData (fst (snd (executeBuy exact_runtime SniperJs sniper0 (Inl TradeError))))
       = Some lp0
   \<and> fullLpData (fst (snd (executeBuy exact_runtime Part002 sniper0 (Inl TradeError)))) = None"
  by (simp add: executeBuy_def Let_def)

subsection \<open>Target price and trigger\<close>






subsection \<open>Selling with no token account\<close>

text \<open>
  C10. Let a callback stand in \<^verbatim>\<open>executeSell\<close>, awaiting the record store, in a
  session whose base mint is a well-formed key. When the store returns a record and the
  owner has no token account for the base mint, \<^verbatim>\<open>getTokenBalance\<close> returns the Number
  0 and \<^verbatim>\<open>executeSell\<close> calls the trade executor with \<open>amountSpecified = 0\<close> and
  \<open>swapBaseIn = true\<close>; nothing is thrown before the call. This holds for both copies of
  the class.
\<close>

theorem sell_with_no_token_account_trades_zero:
  assumes "i < length (tasks w)" and "tasks w ! i = AwaitFetch"
    and "get_field (props (self w)) ''baseMint'' = JStr k" and "isKey R k"
    and "w' = run R f w [Resume i (Fetched (Some lp)), Resume i (Accounts [])]"
  shows "getTokenBalance_accounts [] = Some (AmountNumber (Finite 0))
       \<and> tasks w' ! i = AwaitSwap
       \<and> (\<exists>call. trades w' = trades w @ [call]
             \<and> amountSpecified call = AmountNumber (Finite 0) \<and> swapBaseIn call
             \<and> (call_lpData call = Some lp \<or> call_tokenData call = Some lp))"
  using assms
  by (cases f)
     (simp_all add: after_fetch_def issue_sell_def getTokenBalance_accounts_def swap_call_of_def)

theorem sell_with_no_token_account_trades_zero_witness:
  "tasks (step exact_runtime SniperJs world0 hit) ! 0 = AwaitFetch
   \<and> tasks (run exact_runtime SniperJs (step exact_runtime SniperJs world0 hit)
        [Resume 0 (Fetched (Some lp0)), Resume 0 (Accounts [])]) ! 0 = AwaitSwap
   \<and> (\<exists>call. trades (run exact_runtime SniperJs (step exact_runtime SniperJs world0 hit)
                 [Resume 0 (Fetched (Some lp0)), Resume 0 (Accounts [])]) = [call]
         \<and> amountSpecified call = AmountNumber (Finite 0) \<and> swapBaseIn call)"
proof -
  let ?w = "step exact_runtime SniperJs world0 hit"
  have h: "0 < length (tasks ?w)" "tasks ?w ! 0 = AwaitFetch"
    "get_field (props (self ?w)) ''baseMint'' = JStr ''TOKEN''" "isKey exact_runtime ''TOKEN''"
    by (simp_all add: session0_simps)
  have t: "trades ?w = []" by (simp add: session0_simps)
  from sell_with_no_token_account_trades_zero [OF h refl, of SniperJs lp0] h(2) t
  show ?thesis by auto
qed


end
